theory Spec2Isabelle
  imports Main
begin

section \<open>JavaScript strings\<close>

text \<open>
  A JavaScript string is a sequence of UTF-16 code units. The patterns of the program
  mention code units beyond Latin-1 (the em dash U+2014 in the search row's ratings
  pattern, the Unicode white space of \<open>\s\<close> and \<open>trim\<close>), so a code unit is modelled
  as an integer and a string as a list of them. \<open>str\<close> embeds an ASCII literal.
\<close>

type_synonym jstring = "int list"

definition str :: "string \<Rightarrow> jstring" where
  "str s = map of_char s"

text \<open>
  ECMAScript WhiteSpace and LineTerminator code units: what \<open>String.prototype.trim\<close>
  strips and what \<open>\s\<close> matches.
\<close>

definition isWhiteSpace :: "int \<Rightarrow> bool" where
  "isWhiteSpace c \<longleftrightarrow>
     c \<in> set [9, 10, 11, 12, 13, 32, 160, 5760, 8232, 8233, 8239, 8287, 12288, 65279]
     \<or> (8192 \<le> c \<and> c \<le> 8202)"

definition trim :: "jstring \<Rightarrow> jstring" where
  "trim s = rev (dropWhile isWhiteSpace (rev (dropWhile isWhiteSpace s)))"

text \<open>
  \<open>toLowerCase\<close> on the ASCII range. The program only compares a lower-cased label with
  the ASCII words format, published, isbn, asin and language; no code unit outside A-Z
  lower-cases to a letter of these words, so the dispatch is the same as under the full
  Unicode mapping.
\<close>

definition toLowerCase :: "jstring \<Rightarrow> jstring" where
  "toLowerCase s = map (\<lambda>c. if 65 \<le> c \<and> c \<le> 90 then c + 32 else c) s"

text \<open>
  \<open>s.split(sep)\<close> for a one-unit separator: the empty string splits into one empty
  piece, and \<open>n\<close> separators give \<open>n + 1\<close> pieces.
\<close>

fun js_split :: "int \<Rightarrow> jstring \<Rightarrow> jstring list" where
  "js_split sep [] = [[]]"
| "js_split sep (c # cs) =
     (if c = sep then [] # js_split sep cs
      else (case js_split sep cs of [] \<Rightarrow> [[c]] | p # ps \<Rightarrow> (c # p) # ps))"

text \<open>\<open>s || null\<close> for a string \<open>s\<close>, and for a value that may be \<open>undefined\<close>.\<close>

definition orNull :: "jstring \<Rightarrow> jstring option" where
  "orNull s = (if s = [] then None else Some s)"

definition orNull_undef :: "jstring option \<Rightarrow> jstring option" where
  "orNull_undef v = (case v of None \<Rightarrow> None | Some s \<Rightarrow> orNull s)"

text \<open>\<open>s + v\<close> where \<open>v\<close> may be \<open>undefined\<close>: the word undefined is appended.\<close>

definition concat_undef :: "jstring \<Rightarrow> jstring option \<Rightarrow> jstring" where
  "concat_undef s v = s @ (case v of None \<Rightarrow> str ''undefined'' | Some t \<Rightarrow> t)"

text \<open>
  \<open>[...new Set(xs)]\<close>: a Set keeps its members in insertion order and ignores a value
  it already holds.
\<close>

definition set_add :: "'a list \<Rightarrow> 'a \<Rightarrow> 'a list" where
  "set_add s x = (if x \<in> set s then s else s @ [x])"

definition new_Set :: "'a list \<Rightarrow> 'a list" where
  "new_Set xs = foldl set_add [] xs"

section \<open>Regular expressions\<close>

text \<open>
  The fragment of JavaScript patterns the program uses: character classes, sequence,
  the greedy star (and \<open>+\<close>, \<open>{n}\<close> through it) and capturing groups. There is no
  alternation in the program. \<open>rmatch r s\<close> lists, in the backtracking order of the
  ECMAScript matcher, every way \<open>r\<close> matches a prefix of \<open>s\<close>: the rest of the string
  and the captures, in the order of the opening parentheses. A star first tries one more
  iteration and refuses an iteration that consumes nothing. No group of the program
  stands under a star, so captures are never reset.
\<close>

datatype cset = CDigit | CSpace | CDot | CLit int | COr cset cset | CNot cset

fun in_cset :: "cset \<Rightarrow> int \<Rightarrow> bool" where
  "in_cset CDigit c = (48 \<le> c \<and> c \<le> 57)"
| "in_cset CSpace c = isWhiteSpace c"
| "in_cset CDot c = (c \<notin> set [10, 13, 8232, 8233])"
| "in_cset (CLit a) c = (c = a)"
| "in_cset (COr a b) c = (in_cset a c \<or> in_cset b c)"
| "in_cset (CNot a) c = (\<not> in_cset a c)"

datatype regex = Eps | Sym cset | Seq regex regex | Star regex | Group regex

function rmatch :: "regex \<Rightarrow> jstring \<Rightarrow> (jstring \<times> jstring list) list" where
  "rmatch Eps s = [(s, [])]"
| "rmatch (Sym k) s =
     (case s of [] \<Rightarrow> [] | c # cs \<Rightarrow> if in_cset k c then [(cs, [])] else [])"
| "rmatch (Seq a b) s =
     concat (map (\<lambda>m1. map (\<lambda>m2. (fst m2, snd m1 @ snd m2)) (rmatch b (fst m1)))
                 (rmatch a s))"
| "rmatch (Star a) s =
     concat (map (\<lambda>m1. if length (fst m1) < length s
                          then map (\<lambda>m2. (fst m2, snd m1 @ snd m2)) (rmatch (Star a) (fst m1))
                          else [])
                 (rmatch a s)) @ [(s, [])]"
| "rmatch (Group a) s =
     map (\<lambda>m. (fst m, take (length s - length (fst m)) s # snd m)) (rmatch a s)"
  by pat_completeness auto
termination
  by (relation "measures [\<lambda>(r, s). size r, \<lambda>(r, s). length s]") auto

definition rplus :: "regex \<Rightarrow> regex" where
  "rplus r = Seq r (Star r)"

fun rtimes :: "nat \<Rightarrow> regex \<Rightarrow> regex" where
  "rtimes 0 r = Eps"
| "rtimes (Suc n) r = Seq r (rtimes n r)"

fun lit :: "jstring \<Rightarrow> regex" where
  "lit [] = Eps"
| "lit (c # cs) = Seq (Sym (CLit c)) (lit cs)"

text \<open>
  The first match at the start of \<open>s\<close>: the number of code units matched and the captures.
\<close>

definition exec_at :: "regex \<Rightarrow> jstring \<Rightarrow> (nat \<times> jstring list) option" where
  "exec_at r s = (case rmatch r s of [] \<Rightarrow> None
                  | m # _ \<Rightarrow> Some (length s - length (fst m), snd m))"

text \<open>
  \<open>s.match(/r/)\<close> without the global flag: the leftmost match, tried at every index
  from 0 to the end of the string; the result is the list of captures, \<open>None\<close> for
  \<open>null\<close>.
\<close>

fun js_match :: "regex \<Rightarrow> jstring \<Rightarrow> jstring list option" where
  "js_match r [] = map_option snd (exec_at r [])"
| "js_match r (c # cs) =
     (case exec_at r (c # cs) of Some m \<Rightarrow> Some (snd m) | None \<Rightarrow> js_match r cs)"

text \<open>\<open>s.match(/^r/)\<close>: without the multiline flag \<open>^\<close> holds at index 0 only.\<close>

definition js_match_start :: "regex \<Rightarrow> jstring \<Rightarrow> jstring list option" where
  "js_match_start r s = map_option snd (exec_at r s)"

text \<open>
  \<open>m[1]\<close> of a match. Every pattern of the program has exactly one group, outside any
  star, so the list of captures is never empty here (\<open>cap1_defined\<close> below).
\<close>

definition cap1 :: "jstring list \<Rightarrow> jstring" where
  "cap1 m = (case m of [] \<Rightarrow> [] | g # _ \<Rightarrow> g)"

text \<open>
  The number of groups of a pattern, and the patterns in which no group stands under a
  star: for these every match has one capture per group.
\<close>

fun groups :: "regex \<Rightarrow> nat" where
  "groups Eps = 0"
| "groups (Sym k) = 0"
| "groups (Seq a b) = groups a + groups b"
| "groups (Star a) = groups a"
| "groups (Group a) = Suc (groups a)"

fun star_plain :: "regex \<Rightarrow> bool" where
  "star_plain Eps = True"
| "star_plain (Sym k) = True"
| "star_plain (Seq a b) = (star_plain a \<and> star_plain b)"
| "star_plain (Star a) = (groups a = 0 \<and> star_plain a)"
| "star_plain (Group a) = star_plain a"

text \<open>
  \<open>s.replace(/r/g, rep)\<close> with a constant replacement: the matches are taken left to
  right without overlap; after an empty match the next code unit is copied.
\<close>

function replaceAll :: "regex \<Rightarrow> jstring \<Rightarrow> jstring \<Rightarrow> jstring" where
  "replaceAll r rep [] = (case exec_at r [] of None \<Rightarrow> [] | Some _ \<Rightarrow> rep)"
| "replaceAll r rep (c # cs) =
     (case exec_at r (c # cs) of
        None \<Rightarrow> c # replaceAll r rep cs
      | Some m \<Rightarrow> if fst m = 0 then rep @ c # replaceAll r rep cs
                  else rep @ replaceAll r rep (drop (fst m) (c # cs)))"
  by pat_completeness auto
termination
  by (relation "measure (\<lambda>(r, rep, s). length s)") auto

text \<open>Patterns both files use: \<open>\d+\<close>, \<open>\s+\<close> (also as \<open>/\s+/g\<close>) and \<open>/,/g\<close>.\<close>

definition digits :: regex where
  "digits = rplus (Sym CDigit)"

definition spaces :: regex where
  "spaces = rplus (Sym CSpace)"

definition commaRe :: regex where
  "commaRe = Sym (CLit 44)"

section \<open>The parsed document and the queries of cheerio\<close>

text \<open>
  \<open>cheerio.load(html)\<close> gives a tree of elements and text nodes; the document is the
  list of its top-level nodes. Comments carry no text and match no selector, so they are
  left out of the tree.
\<close>

datatype node = Element jstring "(jstring \<times> jstring) list" "node list" | Text jstring

fun textContent :: "node \<Rightarrow> jstring" where
  "textContent (Text t) = t"
| "textContent (Element tg as kids) = concat (map textContent kids)"

text \<open>
  An element of a selection: the node, its path from the root (the identity of the node:
  two equal subtrees at different places are different elements) and its element
  ancestors, the nearest first, each with its path.
\<close>

datatype elem = Elem (path: "nat list") (node: node) (ancestors: "(nat list \<times> node) list")

type_synonym selection = "elem list"

fun subtree :: "nat list \<Rightarrow> (nat list \<times> node) list \<Rightarrow> node \<Rightarrow> elem list"
  and forest :: "nat list \<Rightarrow> (nat list \<times> node) list \<Rightarrow> nat \<Rightarrow> node list \<Rightarrow> elem list"
where
  "subtree p anc (Text t) = []"
| "subtree p anc (Element tg as kids) =
     Elem p (Element tg as kids) anc # forest p ((p, Element tg as kids) # anc) 0 kids"
| "forest p anc i [] = []"
| "forest p anc i (k # ks) = subtree (p @ [i]) anc k @ forest p anc (Suc i) ks"

text \<open>
  A compound selector: an optional tag name, class names and attribute values that must
  all hold of one element (\<open>img.ResponsiveImage\<close>, \<open>h1[data-testid="bookTitle"]\<close>,
  \<open>.greyText.smallText.uitext\<close>). A selector is a list of them joined by the descendant
  combinator.
\<close>

datatype simple = Simple "jstring option" "jstring list" "(jstring \<times> jstring) list"

text \<open>
  The class test of cheerio's selector engine takes the class attribute apart at \<open>\s\<close>.
\<close>

fun words :: "jstring \<Rightarrow> jstring \<Rightarrow> jstring list" where
  "words w [] = (if w = [] then [] else [w])"
| "words w (c # cs) =
     (if isWhiteSpace c then (if w = [] then words [] cs else w # words [] cs)
      else words (w @ [c]) cs)"

definition class_names :: "(jstring \<times> jstring) list \<Rightarrow> jstring list" where
  "class_names as = (case map_of as (str ''class'') of None \<Rightarrow> [] | Some v \<Rightarrow> words [] v)"

fun matches_simple :: "simple \<Rightarrow> node \<Rightarrow> bool" where
  "matches_simple sel (Text t) = False"
| "matches_simple (Simple tg cs avs) (Element tg' as kids) =
     ((case tg of None \<Rightarrow> True | Some n \<Rightarrow> tg' = n)
      \<and> list_all (\<lambda>c. c \<in> set (class_names as)) cs
      \<and> list_all (\<lambda>kv. map_of as (fst kv) = Some (snd kv)) avs)"

text \<open>
  The part of a selector to the left of its last compound. \<open>match_chain ss sc xs\<close>:
  \<open>ss\<close> are the remaining compounds, the rightmost first, and \<open>xs\<close> is the element
  the compound to their right was matched at, followed by its element ancestors, the
  nearest first. A descendant combinator asks for an ancestor strictly above. A query
  relative to a selection (\<open>find_in\<close>) is compiled as \<open>:scope\<close> joined to the selector
  by the flexible descendant of cheerio's selector engine: the element matched at the
  leftmost compound, or one of its ancestors, must be one of the context elements.
\<close>

fun match_chain :: "simple list \<Rightarrow> nat list list option \<Rightarrow> (nat list \<times> node) list \<Rightarrow> bool" where
  "match_chain [] None xs = True"
| "match_chain [] (Some ctx) xs = list_ex (\<lambda>a. fst a \<in> set ctx) xs"
| "match_chain (s # ss) sc [] = False"
| "match_chain (s # ss) sc [x] = False"
| "match_chain (s # ss) sc (x # a # anc) =
     ((matches_simple s (snd a) \<and> match_chain ss sc (a # anc))
      \<or> match_chain (s # ss) sc (a # anc))"

definition matches :: "simple list \<Rightarrow> nat list list option \<Rightarrow> elem \<Rightarrow> bool" where
  "matches sel sc e =
     (case rev sel of [] \<Rightarrow> False
      | s # ss \<Rightarrow> matches_simple s (node e)
                  \<and> match_chain ss sc ((path e, node e) # ancestors e))"

text \<open>\<open>$(selector)\<close>: the elements of the document that match, in document order.\<close>

definition select :: "simple list \<Rightarrow> node list \<Rightarrow> selection" where
  "select sel doc = filter (matches sel None) (forest [] [] 0 doc)"

text \<open>
  \<open>selection.find(selector)\<close>. cheerio searches below the context elements that are not
  inside another context element (so no element is found twice) and compiles the
  selector under \<open>:scope\<close> when every context element has an element parent; a context
  that is a top-level element leaves the selector unscoped. The elements found lie
  strictly below a context element, while the element the leftmost compound of a longer
  selector is matched at may be the context element itself.
\<close>

definition below :: "elem \<Rightarrow> selection" where
  "below c = (case node c of Text t \<Rightarrow> []
              | Element tg as kids \<Rightarrow> forest (path c) ((path c, node c) # ancestors c) 0 kids)"

definition removeSubsets :: "selection \<Rightarrow> selection" where
  "removeSubsets ctx =
     filter (\<lambda>c. \<not> list_ex (\<lambda>a. fst a \<in> set (map path ctx)) (ancestors c)) ctx"

definition find_in :: "simple list \<Rightarrow> selection \<Rightarrow> selection" where
  "find_in sel ctx =
     (let sc = (if list_all (\<lambda>c. ancestors c \<noteq> []) ctx then Some (map path ctx) else None)
      in filter (matches sel sc) (concat (map below (removeSubsets ctx))))"

text \<open>\<open>.text()\<close>, \<open>.first()\<close> and \<open>.attr(name)\<close> (\<open>None\<close> for \<open>undefined\<close>).\<close>

definition text_of :: "selection \<Rightarrow> jstring" where
  "text_of sel = concat (map (\<lambda>e. textContent (node e)) sel)"

definition first :: "selection \<Rightarrow> selection" where
  "first sel = take 1 sel"

definition attr :: "jstring \<Rightarrow> selection \<Rightarrow> jstring option" where
  "attr name sel =
     (case sel of [] \<Rightarrow> None
      | e # _ \<Rightarrow> (case node e of Text t \<Rightarrow> None | Element tg as kids \<Rightarrow> map_of as name))"

text \<open>Selector syntax: \<open>.c\<close>, \<open>t\<close>, \<open>t.c\<close> and \<open>t[k="v"]\<close>.\<close>

definition cls :: "string \<Rightarrow> simple" where
  "cls c = Simple None [str c] []"

definition tag :: "string \<Rightarrow> simple" where
  "tag t = Simple (Some (str t)) [] []"

definition tag_cls :: "string \<Rightarrow> string \<Rightarrow> simple" where
  "tag_cls t c = Simple (Some (str t)) [str c] []"

definition tag_attr :: "string \<Rightarrow> string \<Rightarrow> string \<Rightarrow> simple" where
  "tag_attr t k v = Simple (Some (str t)) [] [(str k, str v)]"

text \<open>Writing a concrete tree: an element and a text node from ASCII literals.\<close>

definition mk_el :: "string \<Rightarrow> (string \<times> string) list \<Rightarrow> node list \<Rightarrow> node" where
  "mk_el t as kids = Element (str t) (map (\<lambda>kv. (str (fst kv), str (snd kv))) as) kids"

definition mk_tx :: "string \<Rightarrow> node" where
  "mk_tx s = Text (str s)"

section \<open>The search pipeline (the search script)\<close>

record book =
  title :: "jstring option"
  authors :: "jstring list"
  detailsUrl :: "jstring option"
  goodreadsId :: "jstring option"
  publishedYear :: "jstring option"
  averageRating :: "jstring option"
  numberOfRatings :: "jstring option"

text \<open>
  The patterns of the search script: \<open>/\/show\/(\d+)/\<close>, \<open>/published\s+(\d{4})/\<close>,
  \<open>/([\d.]+)\s+avg rating/\<close> and \<open>/-\s+([\d,]+)\s+ratings/\<close>, where the source has the
  em dash U+2014 (code unit 8212) in place of the hyphen.
\<close>

definition showRe :: regex where
  "showRe = Seq (lit (str ''/show/'')) (Group digits)"

definition yearRe :: regex where
  "yearRe = Seq (lit (str ''published'')) (Seq spaces (Group (rtimes 4 (Sym CDigit))))"

definition avgRe :: regex where
  "avgRe = Seq (Group (rplus (Sym (COr CDigit (CLit 46))))) (Seq spaces (lit (str ''avg rating'')))"

definition rowRatingsRe :: regex where
  "rowRatingsRe =
     Seq (Sym (CLit 8212)) (Seq spaces (Seq (Group (rplus (Sym (COr CDigit (CLit 44)))))
       (Seq spaces (lit (str ''ratings'')))))"

text \<open>
  \<open>detailsUrl.match(...)?.[1] || null\<close>: no match, or an empty capture, gives \<open>null\<close>.
\<close>

definition initializeBookObject :: "elem \<Rightarrow> book" where
  "initializeBookObject el =
     (let detailsUrl = concat_undef (str ''https://www.goodreads.com'')
                         (attr (str ''href'') (find_in [cls ''bookTitle''] [el]))
      in \<lparr>title = orNull (trim (text_of
              (find_in [cls ''bookTitle'', tag_attr ''span'' ''itemprop'' ''name''] [el]))),
          authors = [],
          detailsUrl = orNull detailsUrl,
          goodreadsId = (case js_match showRe detailsUrl of None \<Rightarrow> None
                         | Some m \<Rightarrow> orNull (cap1 m)),
          publishedYear = None,
          averageRating = None,
          numberOfRatings = None\<rparr>)"

definition parseAuthors_row :: "elem \<Rightarrow> book \<Rightarrow> book" where
  "parseAuthors_row el bk =
     foldl (\<lambda>b authorElement. b\<lparr>book.authors := book.authors b @
              [trim (text_of (find_in [tag_attr ''span'' ''itemprop'' ''name''] [authorElement]))]\<rparr>)
       bk (find_in [cls ''authorName__container''] [el])"

definition parsePublishedDate :: "elem \<Rightarrow> book \<Rightarrow> book" where
  "parsePublishedDate el bk =
     (let greyText = text_of (find_in [Simple None [str ''greyText'', str ''smallText'', str ''uitext''] []] [el])
      in bk\<lparr>publishedYear := (case js_match yearRe greyText of None \<Rightarrow> None
                               | Some m \<Rightarrow> Some (cap1 m))\<rparr>)"

definition parseRatings_row :: "elem \<Rightarrow> book \<Rightarrow> book" where
  "parseRatings_row el bk =
     (let ratingText = text_of (find_in [cls ''minirating''] [el])
      in bk\<lparr>averageRating := (case js_match avgRe ratingText of None \<Rightarrow> None
                               | Some m \<Rightarrow> Some (cap1 m)),
            book.numberOfRatings := (case js_match rowRatingsRe ratingText of None \<Rightarrow> None
                               | Some m \<Rightarrow> Some (replaceAll commaRe [] (cap1 m)))\<rparr>)"

definition parseBookData :: "elem \<Rightarrow> book" where
  "parseBookData el = parseRatings_row el (parsePublishedDate el (parseAuthors_row el
     (initializeBookObject el)))"

text \<open>The rows \<open>$('tr[itemtype="http://schema.org/Book"]')\<close> that the loop visits.\<close>

definition bookRows :: "node list \<Rightarrow> selection" where
  "bookRows doc = select [tag_attr ''tr'' ''itemtype'' ''http://schema.org/Book''] doc"

definition parseSearchResults :: "node list \<Rightarrow> book list" where
  "parseSearchResults doc =
     foldl (\<lambda>results element. results @ [parseBookData element]) [] (bookRows doc)"

section \<open>The detail pipeline (lookup.js)\<close>

record edition =
  format :: "jstring option"
  published :: "jstring option"
  isbn13 :: "jstring option"
  isbn10 :: "jstring option"
  asin :: "jstring option"
  language :: "jstring option"

record bookDetails =
  title :: "jstring option"
  series :: "jstring option"
  authors :: "jstring list"
  rating :: "jstring option"
  numberOfRatings :: "jstring option"
  numberOfReviews :: "jstring option"
  genres :: "jstring list"
  settings :: "jstring list"
  numberOfPages :: "jstring option"
  firstPublished :: "jstring option"
  description :: "jstring option"
  coverImage :: "jstring option"
  editionDetails :: edition

definition initializeBookDetailsObject :: bookDetails where
  "initializeBookDetailsObject =
     \<lparr>title = None, series = None, authors = [], rating = None, numberOfRatings = None,
      numberOfReviews = None, genres = [], settings = [], numberOfPages = None,
      firstPublished = None, description = None, coverImage = None,
      editionDetails = \<lparr>format = None, published = None, isbn13 = None, isbn10 = None,
                        asin = None, language = None\<rparr>\<rparr>"

text \<open>The patterns of lookup.js.\<close>

text \<open>\<open>/(\d+(?:,\d+)*)\s+ratings/\<close> and \<open>/(\d+(?:,\d+)*)\s+reviews/\<close>\<close>

definition counted :: "string \<Rightarrow> regex" where
  "counted w =
     Seq (Group (Seq digits (Star (Seq (Sym (CLit 44)) digits)))) (Seq spaces (lit (str w)))"

text \<open>\<open>/\([^)]*\)/g\<close>\<close>

definition parenRe :: regex where
  "parenRe = Seq (Sym (CLit 40)) (Seq (Star (Sym (CNot (CLit 41)))) (Sym (CLit 41)))"

text \<open>\<open>/(\d+)\s*pages/\<close> and \<open>/First published\s+(.+)/\<close>\<close>

definition pagesRe :: regex where
  "pagesRe = Seq (Group digits) (Seq (Star (Sym CSpace)) (lit (str ''pages'')))"

definition publishedRe :: regex where
  "publishedRe = Seq (lit (str ''First published'')) (Seq spaces (Group (rplus (Sym CDot))))"

text \<open>\<open>/^(\d{13})/\<close> (without its anchor) and \<open>/ISBN10:\s*(\d{10})/\<close>\<close>

definition isbn13Re :: regex where
  "isbn13Re = Group (rtimes 13 (Sym CDigit))"

definition isbn10Re :: regex where
  "isbn10Re = Seq (lit (str ''ISBN10:'')) (Seq (Star (Sym CSpace)) (Group (rtimes 10 (Sym CDigit))))"

text \<open>
  The patterns the program hands to \<open>match\<close> without an anchor; \<open>isbn13Re\<close> is the
  one anchored pattern.
\<close>

definition patterns :: "regex list" where
  "patterns = [counted ''ratings'', counted ''reviews'', pagesRe, publishedRe, isbn10Re,
               showRe, yearRe, avgRe, rowRatingsRe]"

text \<open>The constants \<open>titleSection\<close> and \<open>seriesElement\<close> of \<open>parseTitleAndSeries\<close>.\<close>

definition titleSection :: "node list \<Rightarrow> selection" where
  "titleSection doc = select [cls ''BookPageTitleSection__title''] doc"

definition seriesElement :: "node list \<Rightarrow> selection" where
  "seriesElement doc = find_in [tag_cls ''h3'' ''Text__italic'', tag ''a''] (titleSection doc)"

definition parseTitleAndSeries :: "node list \<Rightarrow> bookDetails \<Rightarrow> bookDetails" where
  "parseTitleAndSeries doc bd =
     (if length (seriesElement doc) \<noteq> 0
      then bd\<lparr>series := Some (trim (text_of (seriesElement doc))),
              title := Some (trim (text_of
                (find_in [tag_attr ''h1'' ''data-testid'' ''bookTitle''] (titleSection doc))))\<rparr>
      else bd\<lparr>title := Some (trim (text_of (titleSection doc)))\<rparr>)"

definition parseAuthors :: "node list \<Rightarrow> bookDetails \<Rightarrow> bookDetails" where
  "parseAuthors doc bd =
     foldl (\<lambda>b el. b\<lparr>authors := authors b @
                       [trim (replaceAll spaces (str '' '') (text_of [el]))]\<rparr>)
       bd (select [cls ''ContributorLinksList'', cls ''ContributorLink__name''] doc)"

text \<open>The constant \<open>ratingsAndReviews\<close> of \<open>parseRatings\<close>: the meta text, read once.\<close>

definition ratingsAndReviews :: "node list \<Rightarrow> jstring" where
  "ratingsAndReviews doc = trim (text_of (first (select [cls ''RatingStatistics__meta''] doc)))"

definition parseRatings :: "node list \<Rightarrow> bookDetails \<Rightarrow> bookDetails" where
  "parseRatings doc bd =
     (let ratingsMatch = js_match (counted ''ratings'') (ratingsAndReviews doc);
          reviewsMatch = js_match (counted ''reviews'') (ratingsAndReviews doc)
      in bd\<lparr>rating := orNull (trim (text_of (first (select [cls ''RatingStatistics__rating''] doc)))),
            numberOfRatings := (case ratingsMatch of None \<Rightarrow> None
                                | Some m \<Rightarrow> Some (replaceAll commaRe [] (cap1 m))),
            numberOfReviews := (case reviewsMatch of None \<Rightarrow> None
                                | Some m \<Rightarrow> Some (replaceAll commaRe [] (cap1 m)))\<rparr>)"

text \<open>lookup.js has two variants of \<open>parseGenres\<close>: lines 200-207 and lines 503-510.\<close>

definition parseGenres :: "node list \<Rightarrow> bookDetails \<Rightarrow> bookDetails" where
  "parseGenres doc bd =
     foldl (\<lambda>b el. let genreName = trim (text_of [el])
                    in if genreName \<noteq> str ''...show all''
                       then b\<lparr>genres := genres b @ [genreName]\<rparr> else b)
       bd (select [cls ''BookPageMetadataSection__genres'', cls ''Button__labelItem''] doc)"

definition parseGenres_alt :: "node list \<Rightarrow> bookDetails \<Rightarrow> bookDetails" where
  "parseGenres_alt doc bd =
     foldl (\<lambda>b el. let genreName = trim (text_of [el])
                    in if genreName \<noteq> str ''...more'' \<and> genreName \<noteq> str ''...show all''
                       then b\<lparr>genres := genres b @ [genreName]\<rparr> else b)
       bd (select [cls ''BookPageMetadataSection__genres'', cls ''Button__labelItem''] doc)"

definition parseBasicDetails :: "node list \<Rightarrow> bookDetails \<Rightarrow> bookDetails" where
  "parseBasicDetails doc bd =
     (let pagesFormat = trim (text_of (select [tag_attr ''p'' ''data-testid'' ''pagesFormat''] doc));
          bd1 = (case js_match pagesRe pagesFormat of None \<Rightarrow> bd
                 | Some m \<Rightarrow> bd\<lparr>numberOfPages := Some (cap1 m)\<rparr>);
          publicationInfo =
            trim (text_of (select [tag_attr ''p'' ''data-testid'' ''publicationInfo''] doc))
      in case js_match publishedRe publicationInfo of None \<Rightarrow> bd1
         | Some m \<Rightarrow> bd1\<lparr>firstPublished := Some (trim (cap1 m))\<rparr>)"

definition parseDescription :: "node list \<Rightarrow> bookDetails \<Rightarrow> bookDetails" where
  "parseDescription doc bd =
     (let descriptionDiv = select [cls ''BookPageMetadataSection__description''] doc
      in if length descriptionDiv \<noteq> 0
         then bd\<lparr>description := orNull (trim (text_of (first
                   (find_in [cls ''TruncatedContent__text''] descriptionDiv))))\<rparr>
         else bd)"

definition parseCoverImage :: "node list \<Rightarrow> bookDetails \<Rightarrow> bookDetails" where
  "parseCoverImage doc bd =
     bd\<lparr>coverImage := orNull_undef (attr (str ''src'')
          (select [cls ''BookCover__image'', tag_cls ''img'' ''ResponsiveImage''] doc))\<rparr>"

text \<open>One round of the loop of \<open>parseEditionDetails\<close>: the switch on the label.\<close>

definition editionItem :: "jstring \<Rightarrow> jstring \<Rightarrow> edition \<Rightarrow> edition" where
  "editionItem label val ed =
     (if label = str ''format'' then ed\<lparr>format := Some val\<rparr>
      else if label = str ''published'' then ed\<lparr>published := Some val\<rparr>
      else if label = str ''isbn'' then
        (let isbn13Match = js_match_start isbn13Re val;
             isbn10Match = js_match isbn10Re val;
             ed1 = (case isbn13Match of None \<Rightarrow> ed | Some m \<Rightarrow> ed\<lparr>isbn13 := Some (cap1 m)\<rparr>)
         in case isbn10Match of None \<Rightarrow> ed1 | Some m \<Rightarrow> ed1\<lparr>isbn10 := Some (cap1 m)\<rparr>)
      else if label = str ''asin'' then ed\<lparr>asin := Some (trim val)\<rparr>
      else if label = str ''language'' then ed\<lparr>language := Some val\<rparr>
      else ed)"

definition parseEditionDetails :: "node list \<Rightarrow> bookDetails \<Rightarrow> bookDetails" where
  "parseEditionDetails doc bd =
     foldl (\<lambda>b el. let label = toLowerCase (trim (text_of (find_in [tag ''dt''] [el])));
                        val = trim (text_of (find_in [tag ''dd''] [el]))
                    in b\<lparr>editionDetails := editionItem label val (editionDetails b)\<rparr>)
       bd (select [cls ''DescListItem''] doc)"

text \<open>
  The expression of \<open>parseSettings\<close> that turns the raw text into the settings: split at
  commas, clean each piece, and pass the pieces through a Set.
\<close>

definition cleanSetting :: "jstring \<Rightarrow> jstring" where
  "cleanSetting setting = trim (replaceAll spaces (str '' '') (replaceAll parenRe [] setting))"

definition settingsOf :: "jstring \<Rightarrow> jstring list" where
  "settingsOf settingsText = new_Set (map cleanSetting (js_split 44 settingsText))"

definition settingsContainer :: "node list \<Rightarrow> selection" where
  "settingsContainer doc =
     filter (\<lambda>el. trim (text_of (find_in [tag ''dt''] [el])) = str ''Setting'')
       (select [cls ''WorkDetails'', cls ''DescListItem''] doc)"

definition settingsText :: "node list \<Rightarrow> jstring" where
  "settingsText doc =
     trim (text_of (find_in [cls ''TruncatedContent__text''] (settingsContainer doc)))"

definition parseSettings :: "node list \<Rightarrow> bookDetails \<Rightarrow> bookDetails" where
  "parseSettings doc bd =
     (if length (settingsContainer doc) \<noteq> 0
      then bd\<lparr>settings := settingsOf (settingsText doc)\<rparr>
      else bd)"

definition parseBookDetails :: "node list \<Rightarrow> bookDetails" where
  "parseBookDetails doc =
     parseSettings doc (parseEditionDetails doc (parseCoverImage doc (parseDescription doc
       (parseBasicDetails doc (parseGenres doc (parseRatings doc (parseAuthors doc
         (parseTitleAndSeries doc initializeBookDetailsObject))))))))"

section \<open>What the claims speak of\<close>

text \<open>
  Following the claim's words, not the source: the subsequence of the first occurrences
  of the members of a list, in the order in which they appear in it. It is compared with
  what \<open>new_Set\<close> computes.
\<close>

definition first_occurrences :: "'a list \<Rightarrow> 'a list" where
  "first_occurrences xs =
     map (\<lambda>i. xs ! i) (filter (\<lambda>i. xs ! i \<notin> set (take i xs)) [0..<length xs])"

text \<open>
  A normalized setting, in the claim's words: every white-space code unit in it is a
  single space (U+0020) that is not followed by white space, and it neither starts nor
  ends with white space.
\<close>

fun single_spaced :: "jstring \<Rightarrow> bool" where
  "single_spaced [] = True"
| "single_spaced [c] = (\<not> isWhiteSpace c \<or> c = 32)"
| "single_spaced (c # d # cs) =
     ((\<not> isWhiteSpace c \<or> (c = 32 \<and> \<not> isWhiteSpace d)) \<and> single_spaced (d # cs))"

definition normalized :: "jstring \<Rightarrow> bool" where
  "normalized s \<longleftrightarrow>
     single_spaced s \<and> (s = [] \<or> (\<not> isWhiteSpace (hd s) \<and> \<not> isWhiteSpace (last s)))"

text \<open>
  What replacing every run of white space by one space comes to; \<open>replaceAll spaces\<close>
  is compared with it.
\<close>

function collapse :: "jstring \<Rightarrow> jstring" where
  "collapse [] = []"
| "collapse (c # cs) =
     (if isWhiteSpace c then 32 # collapse (dropWhile isWhiteSpace cs) else c # collapse cs)"
  by pat_completeness auto
termination
  by (relation "measure length") (auto simp: length_dropWhile_le less_Suc_eq_le)

text \<open>
  The text of a selection with the text of other elements left out, in the claim's
  words "excluding the series text": \<open>text_outside ex sel\<close> is the text of the elements
  of \<open>sel\<close> without the text nodes that lie in an element of \<open>ex\<close>. Two selections
  are apart when no element of the one is, or lies in, an element of the other.
\<close>

definition starts_with :: "nat list \<Rightarrow> nat list \<Rightarrow> bool" where
  "starts_with q p \<longleftrightarrow> take (length p) q = p"

fun textExcept :: "nat list list \<Rightarrow> nat list \<Rightarrow> node \<Rightarrow> jstring"
  and textsExcept :: "nat list list \<Rightarrow> nat list \<Rightarrow> nat \<Rightarrow> node list \<Rightarrow> jstring"
where
  "textExcept ex p (Text t) = t"
| "textExcept ex p (Element tg as kids) = (if p \<in> set ex then [] else textsExcept ex p 0 kids)"
| "textsExcept ex p i [] = []"
| "textsExcept ex p i (k # ks) = textExcept ex (p @ [i]) k @ textsExcept ex p (Suc i) ks"

definition text_outside :: "selection \<Rightarrow> selection \<Rightarrow> jstring" where
  "text_outside ex sel =
     concat (map (\<lambda>e. if list_ex (\<lambda>x. starts_with (path e) (path x)) ex then []
                        else textExcept (map path ex) (path e) (node e)) sel)"

definition apart :: "selection \<Rightarrow> selection \<Rightarrow> bool" where
  "apart xs ys \<longleftrightarrow>
     list_all (\<lambda>x. list_all (\<lambda>y. \<not> starts_with (path x) (path y)
                                     \<and> \<not> starts_with (path y) (path x)) ys) xs"

text \<open>
  The headings \<open>titleSection.find('h1[data-testid="bookTitle"]')\<close> that
  \<open>parseTitleAndSeries\<close> reads the title from when there is a series link.
\<close>

definition bookTitle :: "node list \<Rightarrow> selection" where
  "bookTitle doc = find_in [tag_attr ''h1'' ''data-testid'' ''bookTitle''] (titleSection doc)"

text \<open>
  The selectors lookup.js hands to \<open>$\<close>, in the order of the extractors: when none of
  them matches, every extractor finds nothing.
\<close>

definition detailSelectors :: "simple list list" where
  "detailSelectors =
     [[cls ''BookPageTitleSection__title''],
      [cls ''ContributorLinksList'', cls ''ContributorLink__name''],
      [cls ''RatingStatistics__rating''],
      [cls ''RatingStatistics__meta''],
      [cls ''BookPageMetadataSection__genres'', cls ''Button__labelItem''],
      [tag_attr ''p'' ''data-testid'' ''pagesFormat''],
      [tag_attr ''p'' ''data-testid'' ''publicationInfo''],
      [cls ''BookPageMetadataSection__description''],
      [cls ''BookCover__image'', tag_cls ''img'' ''ResponsiveImage''],
      [cls ''DescListItem''],
      [cls ''WorkDetails'', cls ''DescListItem'']]"

section \<open>Concrete documents\<close>

text \<open>
  Trees as the HTML parser builds them. The detail pages hold the
  \<open>.BookPageMetadataSection\<close> element the lookup waits for before it reads the page.
\<close>

definition dark_tower_page :: "node list" where
  "dark_tower_page =
     [mk_el ''html'' [] [mk_el ''head'' [] [], mk_el ''body'' [] [
        mk_el ''div'' [(''class'', ''BookPageMetadataSection'')] [
          mk_el ''div'' [(''class'', ''BookPageTitleSection__title'')] [
            mk_el ''h3'' [(''class'', ''Text__italic'')] [
              mk_el ''a'' [(''href'', ''/series/40750'')] [mk_tx ''The Dark Tower #1'']],
            mk_el ''h1'' [(''data-testid'', ''bookTitle'')] [mk_tx ''The Gunslinger'']],
          mk_el ''div'' [(''class'', ''RatingStatistics__meta'')] [mk_tx ''4,640 reviews'']]]]]"

definition hell_house_page :: "node list" where
  "hell_house_page =
     [mk_el ''html'' [] [mk_el ''head'' [] [], mk_el ''body'' [] [
        mk_el ''div'' [(''class'', ''BookPageMetadataSection'')] [
          mk_el ''div'' [(''class'', ''BookPageTitleSection__title'')] [
            mk_el ''h1'' [(''data-testid'', ''bookTitle'')] [mk_tx '' Hell House '']],
          mk_el ''div'' [(''class'', ''RatingStatistics__rating'')] [mk_tx ''3.73''],
          mk_el ''div'' [(''class'', ''RatingStatistics__meta'')] [mk_tx ''55,061 ratings''],
          mk_el ''div'' [(''class'', ''EditionDetails'')] [
            mk_el ''div'' [(''class'', ''DescListItem'')] [
              mk_el ''dt'' [] [mk_tx ''ISBN''],
              mk_el ''dd'' [] [mk_tx ''9780727860996ISBN10: 0727860992'']]],
          mk_el ''div'' [(''class'', ''WorkDetails'')] [
            mk_el ''div'' [(''class'', ''DescListItem'')] [
              mk_el ''dt'' [] [mk_tx ''Setting''],
              mk_el ''dd'' [] [mk_el ''span'' [(''class'', ''TruncatedContent__text'')] [
                mk_tx ''London (England), London (England), Paris'']]]]]]]]"

text \<open>
  A title block whose heading holds the italic link, and a title block that is itself the
  italic \<open>h3\<close>.
\<close>

definition saga_page :: "node list" where
  "saga_page =
     [mk_el ''html'' [] [mk_el ''head'' [] [], mk_el ''body'' [] [
        mk_el ''div'' [(''class'', ''BookPageMetadataSection'')] [
          mk_el ''div'' [(''class'', ''BookPageTitleSection__title'')] [
            mk_el ''h1'' [(''data-testid'', ''bookTitle'')] [
              mk_el ''span'' [] [
                mk_el ''h3'' [(''class'', ''Text__italic'')] [
                  mk_el ''a'' [(''href'', ''/series/1'')] [mk_tx ''Saga #2'']]],
              mk_tx '' The Book'']]]]]]"

definition saga_block_page :: "node list" where
  "saga_block_page =
     [mk_el ''html'' [] [mk_el ''head'' [] [], mk_el ''body'' [] [
        mk_el ''div'' [(''class'', ''BookPageMetadataSection'')] [
          mk_el ''h3'' [(''class'', ''BookPageTitleSection__title Text__italic'')] [
            mk_el ''a'' [(''href'', ''/series/1'')] [mk_tx ''Saga #2''],
            mk_tx '' The Book'']]]]]"

definition derry_page :: "node list" where
  "derry_page =
     [mk_el ''html'' [] [mk_el ''head'' [] [], mk_el ''body'' [] [
        mk_el ''div'' [(''class'', ''BookPageMetadataSection'')] [
          mk_el ''div'' [(''class'', ''WorkDetails'')] [
            mk_el ''div'' [(''class'', ''DescListItem'')] [
              mk_el ''dt'' [] [mk_tx ''Setting''],
              mk_el ''dd'' [] [mk_el ''span'' [(''class'', ''TruncatedContent__text'')] [
                mk_tx ''Derry (Maine), Paris,  Derry, New   York , Paris (France)'']]]]]]]]"

definition genres_page :: "node list" where
  "genres_page =
     [mk_el ''html'' [] [mk_el ''head'' [] [], mk_el ''body'' [] [
        mk_el ''div'' [(''class'', ''BookPageMetadataSection'')] [
          mk_el ''ul'' [(''class'', ''BookPageMetadataSection__genres'')] [
            mk_el ''span'' [(''class'', ''Button__labelItem'')] [mk_tx ''Horror''],
            mk_el ''span'' [(''class'', ''Button__labelItem'')] [mk_tx ''Fiction''],
            mk_el ''span'' [(''class'', ''Button__labelItem'')] [mk_tx ''...more''],
            mk_el ''span'' [(''class'', ''Button__labelItem'')] [mk_tx ''...show all'']]]]]]"

definition not_found_page :: "node list" where
  "not_found_page =
     [mk_el ''html'' [] [
        mk_el ''head'' [] [mk_el ''title'' [] [mk_tx ''Page not found'']],
        mk_el ''body'' [] [
          mk_el ''div'' [(''class'', ''BookPageMetadataSection'')] [
            mk_el ''h1'' [(''class'', ''gr-h1'')] [mk_tx ''Page not found'']]]]]"

definition rating_only_page :: "node list" where
  "rating_only_page =
     [mk_el ''html'' [] [mk_el ''head'' [] [], mk_el ''body'' [] [
        mk_el ''div'' [(''class'', ''BookPageMetadataSection'')] [
          mk_el ''div'' [(''class'', ''RatingStatistics__rating'')] [mk_tx ''3.73'']]]]]"

definition search_page :: "node list" where
  "search_page =
     [mk_el ''html'' [] [mk_el ''head'' [] [], mk_el ''body'' [] [mk_el ''table'' [] [mk_el ''tbody'' [] [
        mk_el ''tr'' [(''itemtype'', ''http://schema.org/Book'')] [mk_el ''td'' [] [
          mk_el ''a'' [(''class'', ''bookTitle''), (''href'', ''/book/show/33547.Hell_House?rank=1'')] [
            mk_el ''span'' [(''itemprop'', ''name'')] [mk_tx ''Hell House'']],
          mk_el ''span'' [(''class'', ''authorName__container'')] [
            mk_el ''span'' [(''itemprop'', ''name'')] [mk_tx ''Richard Matheson'']],
          mk_el ''span'' [(''class'', ''greyText smallText uitext'')] [
            mk_el ''span'' [(''class'', ''minirating'')] [
              Text (str ''3.73 avg rating '' @ [8212] @ str '' 55,061 ratings'')],
            mk_tx '' published 1971 '']]],
        mk_el ''tr'' [(''itemtype'', ''http://schema.org/Book'')] [mk_el ''td'' [] [
          mk_el ''a'' [(''class'', ''bookTitle'')] [
            mk_el ''span'' [(''itemprop'', ''name'')] [mk_tx ''Study Guide'']],
          mk_el ''span'' [(''class'', ''authorName__container'')] [
            mk_el ''span'' [(''itemprop'', ''name'')] [mk_tx ''BookRags'']],
          mk_el ''span'' [(''class'', ''greyText smallText uitext'')] [
            mk_el ''span'' [(''class'', ''minirating'')] [
              Text (str ''4.40 avg rating '' @ [8212] @ str '' 5 ratings'')],
            mk_tx '' published 2011 '']]]]]]]]"

text \<open>
  Document order on paths: an element comes before its descendants, and before every
  element of a later sibling's subtree.
\<close>

fun doc_before :: "nat list \<Rightarrow> nat list \<Rightarrow> bool" where
  "doc_before [] [] = False"
| "doc_before [] (y # ys) = True"
| "doc_before (x # xs) [] = False"
| "doc_before (x # xs) (y # ys) = (x < y \<or> (x = y \<and> doc_before xs ys))"

section \<open>Captures\<close>

lemma rmatch_captures:
  "star_plain r \<Longrightarrow> m \<in> set (rmatch r s) \<Longrightarrow> length (snd m) = groups r"
proof (induction r s arbitrary: m rule: rmatch.induct)
  case (1 s)
  then show ?case by simp
next
  case (2 k s)
  then show ?case by (auto split: list.splits if_splits)
next
  case (3 a b s)
  from "3.prems" obtain m1 m2 where m1: "m1 \<in> set (rmatch a s)"
    and m2: "m2 \<in> set (rmatch b (fst m1))" and m: "m = (fst m2, snd m1 @ snd m2)"
    by auto
  from "3.IH"(1) [OF _ m1] "3.prems"(1) have "length (snd m1) = groups a" by simp
  moreover from "3.IH"(2) [OF m1 _ m2] "3.prems"(1) have "length (snd m2) = groups b" by simp
  ultimately show ?case using m by simp
next
  case (4 a s)
  have "m \<in> set (concat (map (\<lambda>m1. if length (fst m1) < length s
                          then map (\<lambda>m2. (fst m2, snd m1 @ snd m2)) (rmatch (Star a) (fst m1))
                          else []) (rmatch a s)) @ [(s, [])])"
    using "4.prems"(2) by (subst (asm) rmatch.simps(4))
  then consider "m = (s, [])"
    | m1 m2 where "m1 \<in> set (rmatch a s)" "length (fst m1) < length s"
        "m2 \<in> set (rmatch (Star a) (fst m1))" "m = (fst m2, snd m1 @ snd m2)"
    by (auto simp del: rmatch.simps split: if_splits)
  then show ?case
  proof cases
    case 1
    with "4.prems"(1) show ?thesis by simp
  next
    case 2
    from "4.IH"(1) [OF _ 2(1)] "4.prems"(1) have "length (snd m1) = 0" by simp
    moreover from "4.IH"(2) [OF 2(1) 2(2) "4.prems"(1) 2(3)] "4.prems"(1)
    have "length (snd m2) = 0" by simp
    ultimately show ?thesis using 2(4) "4.prems"(1) by simp
  qed
next
  case (5 a s)
  then show ?case by auto
qed

lemma exec_at_captures:
  "star_plain r \<Longrightarrow> exec_at r s = Some x \<Longrightarrow> length (snd x) = groups r"
proof -
  assume r: "star_plain r" and x: "exec_at r s = Some x"
  from x obtain y ys where y: "rmatch r s = y # ys" "snd x = snd y"
    by (auto simp: exec_at_def split: list.splits)
  then have "y \<in> set (rmatch r s)" by simp
  from rmatch_captures [OF r this] y(2) show ?thesis by simp
qed

lemma js_match_captures:
  "star_plain r \<Longrightarrow> js_match r s = Some m \<Longrightarrow> length m = groups r"
proof (induction s)
  case Nil
  then obtain x where "exec_at r [] = Some x" "m = snd x" by auto
  with exec_at_captures [OF Nil.prems(1)] show ?case by simp
next
  case (Cons c cs)
  show ?case
  proof (cases "exec_at r (c # cs)")
    case None
    with Cons show ?thesis by simp
  next
    case (Some x)
    with Cons.prems(2) have "m = snd x" by simp
    with exec_at_captures [OF Cons.prems(1) Some] show ?thesis by simp
  qed
qed


lemma groups_lit: "groups (lit s) = 0" "star_plain (lit s)"
  by (induction s) simp_all

lemma groups_rtimes: "groups (rtimes n r) = n * groups r" "star_plain (rtimes n r) = (n = 0 \<or> star_plain r)"
  by (induction n) auto

lemma one_group:
  "list_all (\<lambda>r. star_plain r \<and> groups r = 1) patterns"
  by (simp add: patterns_def counted_def pagesRe_def publishedRe_def isbn10Re_def showRe_def
      yearRe_def avgRe_def rowRatingsRe_def digits_def spaces_def rplus_def groups_lit groups_rtimes)

lemma cap1_defined:
  "r \<in> set patterns \<Longrightarrow> js_match r s = Some m \<Longrightarrow> m = [cap1 m]"
proof -
  assume r: "r \<in> set patterns" and m: "js_match r s = Some m"
  from r one_group have "star_plain r" "groups r = 1"
    by (auto simp: list_all_iff)
  with js_match_captures [OF _ m] have "length m = 1" by simp
  then show ?thesis by (cases m) (simp_all add: cap1_def)
qed

lemma cap1_defined_start:
  "js_match_start isbn13Re s = Some m \<Longrightarrow> m = [cap1 m]"
proof -
  assume m: "js_match_start isbn13Re s = Some m"
  then obtain y ys where y: "rmatch isbn13Re s = y # ys" "m = snd y"
    by (auto simp: js_match_start_def exec_at_def split: list.splits)
  have "star_plain isbn13Re" "groups isbn13Re = 1"
    by (simp_all add: isbn13Re_def groups_rtimes)
  with rmatch_captures [of isbn13Re y s] y have "length m = 1" by simp
  then show ?thesis by (cases m) (simp_all add: cap1_def)
qed

section \<open>Sets, replacement and loops\<close>

lemma new_Set_snoc: "new_Set (xs @ [x]) = set_add (new_Set xs) x"
  by (simp add: new_Set_def)

lemma set_new_Set: "set (new_Set xs) = set xs"
  by (induction xs rule: rev_induct) (auto simp: new_Set_snoc set_add_def new_Set_def)

lemma distinct_new_Set: "distinct (new_Set xs)"
  by (induction xs rule: rev_induct) (auto simp: new_Set_snoc set_add_def new_Set_def)

lemma first_occurrences_snoc:
  "first_occurrences (xs @ [x]) = first_occurrences xs @ (if x \<in> set xs then [] else [x])"
proof -
  define P where "P = (\<lambda>i. (xs @ [x]) ! i \<notin> set (take i (xs @ [x])))"
  define Q where "Q = (\<lambda>i. xs ! i \<notin> set (take i xs))"
  have f: "filter P [0..<length xs] = filter Q [0..<length xs]"
    by (rule filter_cong) (auto simp: P_def Q_def nth_append)
  have m: "map (\<lambda>i. (xs @ [x]) ! i) (filter Q [0..<length xs])
         = map (\<lambda>i. xs ! i) (filter Q [0..<length xs])"
    by (rule map_cong) (auto simp: nth_append)
  have l: "P (length xs) = (x \<notin> set xs)"
    by (simp add: P_def)
  have "first_occurrences (xs @ [x])
      = map (\<lambda>i. (xs @ [x]) ! i) (filter P ([0..<length xs] @ [length xs]))"
    unfolding first_occurrences_def P_def by simp
  also have "\<dots> = map (\<lambda>i. (xs @ [x]) ! i) (filter Q [0..<length xs])
                   @ (if x \<in> set xs then [] else [x])"
    by (simp add: f l)
  also have "\<dots> = first_occurrences xs @ (if x \<in> set xs then [] else [x])"
    unfolding first_occurrences_def Q_def by (simp add: nth_append)
  finally show ?thesis .
qed

lemma new_Set_first_occurrences: "new_Set xs = first_occurrences xs"
proof (induction xs rule: rev_induct)
  case Nil
  show ?case by (simp add: new_Set_def first_occurrences_def)
next
  case (snoc x xs)
  have "new_Set (xs @ [x]) = (if x \<in> set xs then new_Set xs else new_Set xs @ [x])"
    by (simp add: new_Set_snoc set_add_def set_new_Set)
  with snoc show ?case
    by (simp add: first_occurrences_snoc)
qed

lemma exec_at_comma: "exec_at commaRe (c # cs) = (if c = 44 then Some (1, []) else None)"
  by (simp add: exec_at_def commaRe_def)

lemma replaceAll_comma: "replaceAll commaRe [] s = filter (\<lambda>c. c \<noteq> 44) s"
proof (induction s)
  case Nil
  show ?case by (simp add: exec_at_def commaRe_def)
next
  case (Cons c cs)
  then show ?case by (simp add: exec_at_comma)
qed

lemma foldl_push:
  "foldl (\<lambda>results element. results @ [f element]) acc xs = acc @ map f xs"
  by (induction xs arbitrary: acc) auto

section \<open>Each extractor writes its own fields\<close>

lemma foldl_authors:
  "foldl (\<lambda>b el. b\<lparr>authors := authors b @ [f el]\<rparr>) bd xs = bd\<lparr>authors := authors bd @ map f xs\<rparr>"
  by (induction xs arbitrary: bd) simp_all

lemma foldl_genres:
  "foldl (\<lambda>b el. let g = f el in if P g then b\<lparr>genres := genres b @ [g]\<rparr> else b) bd xs
   = bd\<lparr>genres := genres bd @ filter P (map f xs)\<rparr>"
  by (induction xs arbitrary: bd) (simp_all add: Let_def)

lemma foldl_edition:
  "foldl (\<lambda>b el. let l = f el; v = g el in b\<lparr>editionDetails := h l v (editionDetails b)\<rparr>) bd xs
   = bd\<lparr>editionDetails := foldl (\<lambda>ed el. h (f el) (g el) ed) (editionDetails bd) xs\<rparr>"
  by (induction xs arbitrary: bd) (simp_all add: Let_def)

lemma parseAuthors_eq:
  "parseAuthors doc bd = bd\<lparr>authors := authors bd @
     map (\<lambda>el. trim (replaceAll spaces (str '' '') (text_of [el])))
       (select [cls ''ContributorLinksList'', cls ''ContributorLink__name''] doc)\<rparr>"
  unfolding parseAuthors_def by (rule foldl_authors)

lemma parseGenres_eq:
  "parseGenres doc bd = bd\<lparr>genres := genres bd @
     filter (\<lambda>g. g \<noteq> str ''...show all'') (map (\<lambda>el. trim (text_of [el]))
       (select [cls ''BookPageMetadataSection__genres'', cls ''Button__labelItem''] doc))\<rparr>"
  unfolding parseGenres_def by (rule foldl_genres)

lemma parseGenres_alt_eq:
  "parseGenres_alt doc bd = bd\<lparr>genres := genres bd @
     filter (\<lambda>g. g \<noteq> str ''...more'' \<and> g \<noteq> str ''...show all'') (map (\<lambda>el. trim (text_of [el]))
       (select [cls ''BookPageMetadataSection__genres'', cls ''Button__labelItem''] doc))\<rparr>"
  unfolding parseGenres_alt_def by (rule foldl_genres)

lemma parseEditionDetails_eq:
  "parseEditionDetails doc bd = bd\<lparr>editionDetails :=
     foldl (\<lambda>ed el. editionItem (toLowerCase (trim (text_of (find_in [tag ''dt''] [el]))))
                       (trim (text_of (find_in [tag ''dd''] [el]))) ed)
       (editionDetails bd) (select [cls ''DescListItem''] doc)\<rparr>"
  unfolding parseEditionDetails_def by (rule foldl_edition)

lemma parseTitleAndSeries_eq:
  "parseTitleAndSeries doc bd =
     bd\<lparr>series := (if seriesElement doc \<noteq> [] then Some (trim (text_of (seriesElement doc)))
                    else series bd),
        bookDetails.title := Some (trim (text_of
          (if seriesElement doc \<noteq> []
           then find_in [tag_attr ''h1'' ''data-testid'' ''bookTitle''] (titleSection doc)
           else titleSection doc)))\<rparr>"
  by (simp add: parseTitleAndSeries_def)

lemma parseBasicDetails_eq:
  "parseBasicDetails doc bd =
     bd\<lparr>numberOfPages :=
          (case js_match pagesRe
                  (trim (text_of (select [tag_attr ''p'' ''data-testid'' ''pagesFormat''] doc)))
           of None \<Rightarrow> numberOfPages bd | Some m \<Rightarrow> Some (cap1 m)),
        firstPublished :=
          (case js_match publishedRe
                  (trim (text_of (select [tag_attr ''p'' ''data-testid'' ''publicationInfo''] doc)))
           of None \<Rightarrow> firstPublished bd | Some m \<Rightarrow> Some (trim (cap1 m)))\<rparr>"
  by (simp add: parseBasicDetails_def Let_def split: option.splits)

lemma parseDescription_eq:
  "parseDescription doc bd =
     bd\<lparr>description :=
          (if select [cls ''BookPageMetadataSection__description''] doc \<noteq> []
           then orNull (trim (text_of (first (find_in [cls ''TruncatedContent__text'']
                  (select [cls ''BookPageMetadataSection__description''] doc)))))
           else description bd)\<rparr>"
  by (simp add: parseDescription_def Let_def)

lemma parseSettings_eq:
  "parseSettings doc bd =
     bd\<lparr>settings := (if settingsContainer doc \<noteq> [] then settingsOf (settingsText doc)
                      else settings bd)\<rparr>"
  by (simp add: parseSettings_def)

text \<open>
  Every field of the finished record is the field its own extractor computes from the
  initial object: no extractor reads or overwrites what another one wrote.
\<close>

lemma parseBookDetails_eq:
  "parseBookDetails doc =
     \<lparr>bookDetails.title = bookDetails.title (parseTitleAndSeries doc initializeBookDetailsObject),
      series = series (parseTitleAndSeries doc initializeBookDetailsObject),
      bookDetails.authors = bookDetails.authors (parseAuthors doc initializeBookDetailsObject),
      rating = rating (parseRatings doc initializeBookDetailsObject),
      bookDetails.numberOfRatings = bookDetails.numberOfRatings (parseRatings doc initializeBookDetailsObject),
      numberOfReviews = numberOfReviews (parseRatings doc initializeBookDetailsObject),
      genres = genres (parseGenres doc initializeBookDetailsObject),
      settings = settings (parseSettings doc initializeBookDetailsObject),
      numberOfPages = numberOfPages (parseBasicDetails doc initializeBookDetailsObject),
      firstPublished = firstPublished (parseBasicDetails doc initializeBookDetailsObject),
      description = description (parseDescription doc initializeBookDetailsObject),
      coverImage = coverImage (parseCoverImage doc initializeBookDetailsObject),
      editionDetails = editionDetails (parseEditionDetails doc initializeBookDetailsObject)\<rparr>"
  by (simp add: parseBookDetails_def parseTitleAndSeries_eq parseAuthors_eq parseRatings_def
      parseGenres_eq parseBasicDetails_eq parseDescription_eq parseCoverImage_def
      parseEditionDetails_eq parseSettings_eq initializeBookDetailsObject_def Let_def
      cong: option.case_cong if_cong)


section \<open>Title and series\<close>

lemma starts_with_snoc: "starts_with q (p @ [i]) \<Longrightarrow> starts_with q p"
proof -
  assume "starts_with q (p @ [i])"
  then have "take (Suc (length p)) q = p @ [i]" by (simp add: starts_with_def)
  then have "take (length p) (take (Suc (length p)) q) = take (length p) (p @ [i])" by simp
  then show ?thesis by (simp add: starts_with_def min_def)
qed

lemma textExcept_whole:
  "\<forall>q\<in>set ex. \<not> starts_with q p \<Longrightarrow> textExcept ex p n = textContent n"
  "\<forall>q\<in>set ex. \<not> starts_with q p \<Longrightarrow> textsExcept ex p i ks = concat (map textContent ks)"
proof (induction ex p n and ex p i ks rule: textExcept_textsExcept.induct)
  case (1 ex p t)
  show ?case by simp
next
  case (2 ex p tg as kids)
  from "2.prems" have "p \<notin> set ex" by (auto simp: starts_with_def)
  with 2 show ?case by simp
next
  case (3 ex p i)
  show ?case by simp
next
  case (4 ex p i k ks)
  from "4.prems" have "\<forall>q\<in>set ex. \<not> starts_with q (p @ [i])"
    using starts_with_snoc by blast
  with 4 show ?case by simp
qed

lemma text_outside_apart: "apart ex sel \<Longrightarrow> text_outside ex sel = text_of sel"
proof -
  assume a: "apart ex sel"
  have "(if list_ex (\<lambda>x. starts_with (path e) (path x)) ex then []
         else textExcept (map path ex) (path e) (node e)) = textContent (node e)"
    if e: "e \<in> set sel" for e
  proof -
    from a e have 1: "\<not> list_ex (\<lambda>x. starts_with (path e) (path x)) ex"
      and 2: "\<forall>q\<in>set (map path ex). \<not> starts_with q (path e)"
      by (auto simp: apart_def list_all_iff list_ex_iff)
    from textExcept_whole(1) [OF 2] 1 show ?thesis by simp
  qed
  then show ?thesis
    unfolding text_outside_def text_of_def by (auto intro: arg_cong [where f = concat])
qed

text \<open>
  C4. When the title block holds an italic-link element
  (\<open>h3.Text__italic a\<close>), the finished record's series is the trimmed text of that
  element and its title is the trimmed text of the heading
  \<open>h1[data-testid="bookTitle"]\<close> of the title block; that title leaves the series text
  out whenever the italic link and the heading are apart (neither lies in the other).
  When the title block holds no italic link, the series is null and the title is the
  trimmed text of the whole title block.
\<close>

theorem title_and_series:
  "(seriesElement doc \<noteq> [] \<longrightarrow>
      series (parseBookDetails doc) = Some (trim (text_of (seriesElement doc))) \<and>
      bookDetails.title (parseBookDetails doc) = Some (trim (text_of (bookTitle doc))) \<and>
      (apart (seriesElement doc) (bookTitle doc) \<longrightarrow>
         bookDetails.title (parseBookDetails doc)
           = Some (trim (text_outside (seriesElement doc) (bookTitle doc)))))
   \<and> (seriesElement doc = [] \<longrightarrow>
      series (parseBookDetails doc) = None \<and>
      bookDetails.title (parseBookDetails doc) = Some (trim (text_of (titleSection doc))))"
  by (simp add: parseBookDetails_eq parseTitleAndSeries_eq initializeBookDetailsObject_def
      bookTitle_def [symmetric] text_outside_apart)

lemma dark_tower_facts:
  "seriesElement dark_tower_page \<noteq> []"
  "apart (seriesElement dark_tower_page) (bookTitle dark_tower_page)"
  "trim (text_of (seriesElement dark_tower_page)) = str ''The Dark Tower #1''"
  "trim (text_of (bookTitle dark_tower_page)) = str ''The Gunslinger''"
  "trim (text_of (titleSection dark_tower_page)) = str ''The Dark Tower #1The Gunslinger''"
  by code_simp+

lemma hell_house_facts:
  "seriesElement hell_house_page = []"
  "trim (text_of (titleSection hell_house_page)) = str ''Hell House''"
  by code_simp+

lemma saga_block_facts:
  "seriesElement saga_block_page \<noteq> []"
  "trim (text_of (seriesElement saga_block_page)) = str ''Saga #2''"
  "trim (text_of (bookTitle saga_block_page)) = []"
  by code_simp+

theorem title_and_series_witness:
  "seriesElement dark_tower_page \<noteq> []
   \<and> apart (seriesElement dark_tower_page) (bookTitle dark_tower_page)
   \<and> series (parseBookDetails dark_tower_page) = Some (str ''The Dark Tower #1'')
   \<and> bookDetails.title (parseBookDetails dark_tower_page) = Some (str ''The Gunslinger'')
   \<and> trim (text_outside (seriesElement dark_tower_page) (bookTitle dark_tower_page))
        = str ''The Gunslinger''
   \<and> trim (text_of (titleSection dark_tower_page)) = str ''The Dark Tower #1The Gunslinger''
   \<and> seriesElement hell_house_page = []
   \<and> series (parseBookDetails hell_house_page) = None
   \<and> bookDetails.title (parseBookDetails hell_house_page) = Some (str ''Hell House'')
   \<and> seriesElement saga_block_page \<noteq> []
   \<and> series (parseBookDetails saga_block_page) = Some (str ''Saga #2'')
   \<and> bookDetails.title (parseBookDetails saga_block_page) = Some []"
proof -
  from title_and_series [of dark_tower_page] dark_tower_facts(1,2)
  have t: "series (parseBookDetails dark_tower_page)
             = Some (trim (text_of (seriesElement dark_tower_page)))"
    "bookDetails.title (parseBookDetails dark_tower_page)
       = Some (trim (text_of (bookTitle dark_tower_page)))"
    "bookDetails.title (parseBookDetails dark_tower_page)
       = Some (trim (text_outside (seriesElement dark_tower_page) (bookTitle dark_tower_page)))"
    by blast+
  from t(2) t(3)
  have "trim (text_outside (seriesElement dark_tower_page) (bookTitle dark_tower_page))
          = trim (text_of (bookTitle dark_tower_page))"
    by simp
  then have o: "trim (text_outside (seriesElement dark_tower_page) (bookTitle dark_tower_page))
                  = str ''The Gunslinger''"
    by (simp only: dark_tower_facts(4))
  from t(1) have d1: "series (parseBookDetails dark_tower_page) = Some (str ''The Dark Tower #1'')"
    by (simp only: dark_tower_facts(3))
  from t(2) have d2: "bookDetails.title (parseBookDetails dark_tower_page) = Some (str ''The Gunslinger'')"
    by (simp only: dark_tower_facts(4))
  from title_and_series [of hell_house_page] hell_house_facts(1)
  have "series (parseBookDetails hell_house_page) = None"
    "bookDetails.title (parseBookDetails hell_house_page)
       = Some (trim (text_of (titleSection hell_house_page)))"
    by blast+
  then have h: "series (parseBookDetails hell_house_page) = None"
    "bookDetails.title (parseBookDetails hell_house_page) = Some (str ''Hell House'')"
    by (simp_all only: hell_house_facts(2))
  from title_and_series [of saga_block_page] saga_block_facts(1)
  have "series (parseBookDetails saga_block_page)
          = Some (trim (text_of (seriesElement saga_block_page)))"
    "bookDetails.title (parseBookDetails saga_block_page)
       = Some (trim (text_of (bookTitle saga_block_page)))"
    by blast+
  then have b: "series (parseBookDetails saga_block_page) = Some (str ''Saga #2'')"
    "bookDetails.title (parseBookDetails saga_block_page) = Some []"
    by (simp_all only: saga_block_facts(2,3))
  from d1 d2 o h b dark_tower_facts(1,2,5) hell_house_facts(1) saga_block_facts(1)
  show ?thesis by blast
qed

lemma saga_facts:
  "seriesElement saga_page \<noteq> []"
  "trim (text_of (seriesElement saga_page)) = str ''Saga #2''"
  "trim (text_of (bookTitle saga_page)) = str ''Saga #2 The Book''"
  "trim (text_outside (seriesElement saga_page) (bookTitle saga_page)) = str ''The Book''"
  "str ''Saga #2 The Book'' \<noteq> str ''The Book''"
  by code_simp+

lemma saga_record:
  "series (parseBookDetails saga_page) = Some (str ''Saga #2'')"
  "bookDetails.title (parseBookDetails saga_page) = Some (str ''Saga #2 The Book'')"
  by (simp_all add: parseBookDetails_eq parseTitleAndSeries_eq initializeBookDetailsObject_def
      bookTitle_def [symmetric] saga_facts)

text \<open>
  C4, where the heading holds the italic link: the title is the whole text of the
  heading, the series text included, and not the heading's text without it.
\<close>

theorem title_holds_series_text_counterexample:
  "seriesElement saga_page \<noteq> []
   \<and> series (parseBookDetails saga_page) = Some (str ''Saga #2'')
   \<and> trim (text_outside (seriesElement saga_page) (bookTitle saga_page)) = str ''The Book''
   \<and> bookDetails.title (parseBookDetails saga_page) = Some (str ''Saga #2 The Book'')
   \<and> bookDetails.title (parseBookDetails saga_page)
        \<noteq> Some (trim (text_outside (seriesElement saga_page) (bookTitle saga_page)))"
  by (simp add: saga_record saga_facts)

section \<open>Edition details: the two ISBNs\<close>

lemma isbn_example:
  "js_match_start isbn13Re (str ''9780727860996ISBN10: 0727860992'') = Some [str ''9780727860996'']"
  "js_match isbn10Re (str ''9780727860996ISBN10: 0727860992'') = Some [str ''0727860992'']"
  "js_match_start isbn13Re (str ''ISBN10: 0727860992'') = None"
  "js_match isbn10Re (str ''ISBN10: 0727860992'') = Some [str ''0727860992'']"
  "js_match_start isbn13Re (str ''9780727860996'') = Some [str ''9780727860996'']"
  "js_match isbn10Re (str ''9780727860996'') = None"
  by code_simp+

lemma label_isbn:
  "str ''isbn'' \<noteq> str ''format''" "str ''isbn'' \<noteq> str ''published''"
  by (simp_all add: str_def)

text \<open>
  C5. For an edition-details item labelled isbn, the ISBN-13 is taken by
  \<open>/^(\d{13})/\<close> and the ISBN-10 by \<open>/ISBN10:\s*(\d{10})/\<close> from the one value, each
  stored when its own pattern matches and left as it was when it does not. The value
  \<open>9780727860996ISBN10: 0727860992\<close> gives both, the value \<open>9780727860996\<close> only the
  ISBN-13, and the value \<open>ISBN10: 0727860992\<close> only the ISBN-10.
\<close>

theorem isbn_dual_extraction:
  "isbn13 (editionItem (str ''isbn'') v ed) =
     (case js_match_start isbn13Re v of None \<Rightarrow> isbn13 ed | Some m \<Rightarrow> Some (cap1 m))
   \<and> isbn10 (editionItem (str ''isbn'') v ed) =
     (case js_match isbn10Re v of None \<Rightarrow> isbn10 ed | Some m \<Rightarrow> Some (cap1 m))
   \<and> editionItem (str ''isbn'') (str ''9780727860996ISBN10: 0727860992'') ed =
       ed\<lparr>isbn13 := Some (str ''9780727860996''), isbn10 := Some (str ''0727860992'')\<rparr>
   \<and> editionItem (str ''isbn'') (str ''9780727860996'') ed = ed\<lparr>isbn13 := Some (str ''9780727860996'')\<rparr>
   \<and> editionItem (str ''isbn'') (str ''ISBN10: 0727860992'') ed = ed\<lparr>isbn10 := Some (str ''0727860992'')\<rparr>"
  by (simp add: editionItem_def label_isbn isbn_example Let_def cap1_def split: option.splits)

theorem isbn_dual_extraction_witness:
  "isbn13 (editionItem (str ''isbn'') (str ''9780727860996ISBN10: 0727860992'')
            (editionDetails initializeBookDetailsObject)) = Some (str ''9780727860996'')
   \<and> isbn10 (editionItem (str ''isbn'') (str ''9780727860996ISBN10: 0727860992'')
            (editionDetails initializeBookDetailsObject)) = Some (str ''0727860992'')
   \<and> isbn13 (editionDetails (parseBookDetails hell_house_page)) = Some (str ''9780727860996'')
   \<and> isbn10 (editionDetails (parseBookDetails hell_house_page)) = Some (str ''0727860992'')"
proof -
  have page:
    "isbn13 (editionDetails (parseEditionDetails hell_house_page initializeBookDetailsObject))
       = Some (str ''9780727860996'')"
    "isbn10 (editionDetails (parseEditionDetails hell_house_page initializeBookDetailsObject))
       = Some (str ''0727860992'')"
    by code_simp+
  show ?thesis
    using isbn_dual_extraction [of "str ''9780727860996ISBN10: 0727860992''"
        "editionDetails initializeBookDetailsObject"]
    by (simp add: page parseBookDetails_eq isbn_example cap1_def)
qed

section \<open>White space in a cleaned setting\<close>

lemma star_space_first:
  "\<exists>ms. rmatch (Star (Sym CSpace)) s = (dropWhile isWhiteSpace s, []) # ms"
proof (induction s)
  case Nil
  show ?case by (subst rmatch.simps(4)) simp
next
  case (Cons c cs)
  then obtain ms where ms: "rmatch (Star (Sym CSpace)) cs = (dropWhile isWhiteSpace cs, []) # ms"
    by blast
  show ?case
    by (subst rmatch.simps(4)) (simp add: ms del: rmatch.simps(4))
qed

lemma exec_at_spaces:
  "exec_at spaces [] = None"
  "exec_at spaces (c # cs) =
     (if isWhiteSpace c then Some (Suc (length (takeWhile isWhiteSpace cs)), []) else None)"
proof -
  show "exec_at spaces [] = None"
    by (simp add: exec_at_def spaces_def rplus_def del: rmatch.simps(4))
  obtain ms where ms: "rmatch (Star (Sym CSpace)) cs = (dropWhile isWhiteSpace cs, []) # ms"
    using star_space_first by blast
  have "length cs - length (dropWhile isWhiteSpace cs) = length (takeWhile isWhiteSpace cs)"
    by (metis add_diff_cancel_right' length_append takeWhile_dropWhile_id)
  then have "Suc (length cs) - length (dropWhile isWhiteSpace cs)
               = Suc (length (takeWhile isWhiteSpace cs))"
    by (simp add: Suc_diff_le length_dropWhile_le)
  then show "exec_at spaces (c # cs) =
     (if isWhiteSpace c then Some (Suc (length (takeWhile isWhiteSpace cs)), []) else None)"
    by (simp add: exec_at_def spaces_def rplus_def ms del: rmatch.simps(4))
qed

lemma replaceAll_spaces: "replaceAll spaces (str '' '') s = collapse s"
proof (induction s rule: collapse.induct)
  case 1
  show ?case by (simp add: exec_at_spaces)
next
  case (2 c cs)
  have sp: "str '' '' = [32]" by (simp add: str_def)
  show ?case
  proof (cases "isWhiteSpace c")
    case True
    with 2 show ?thesis
      by (simp add: exec_at_spaces sp dropWhile_eq_drop)
  next
    case False
    with 2 show ?thesis
      by (simp add: exec_at_spaces)
  qed
qed

lemma collapse_hd:
  "s = [] \<or> \<not> isWhiteSpace (hd s) \<Longrightarrow> collapse s = [] \<or> \<not> isWhiteSpace (hd (collapse s))"
  by (cases s) auto

lemma dropWhile_hd: "dropWhile P xs = [] \<or> \<not> P (hd (dropWhile P xs))"
  using hd_dropWhile by blast

lemma single_spaced_Cons:
  "single_spaced (c # t) \<longleftrightarrow>
     (\<not> isWhiteSpace c \<or> (c = 32 \<and> (t = [] \<or> \<not> isWhiteSpace (hd t)))) \<and> single_spaced t"
  by (cases t) auto

lemma single_spaced_collapse: "single_spaced (collapse s)"
proof (induction s rule: collapse.induct)
  case 1
  show ?case by simp
next
  case (2 c cs)
  show ?case
  proof (cases "isWhiteSpace c")
    case True
    from collapse_hd [OF dropWhile_hd [of isWhiteSpace cs]] 2(1) [OF True] True
    show ?thesis by (simp add: single_spaced_Cons)
  next
    case False
    with 2(2) show ?thesis by (simp add: single_spaced_Cons)
  qed
qed

lemma single_spaced_suffix: "single_spaced (xs @ ys) \<Longrightarrow> single_spaced ys"
  by (induction xs) (auto simp: single_spaced_Cons)

lemma single_spaced_prefix: "single_spaced (xs @ ys) \<Longrightarrow> single_spaced xs"
proof (induction xs)
  case Nil
  show ?case by simp
next
  case (Cons x xs)
  then show ?case by (cases xs) (auto simp: single_spaced_Cons)
qed

lemma trim_parts: "\<exists>a b. s = a @ trim s @ b"
proof -
  have "s = takeWhile isWhiteSpace s @ dropWhile isWhiteSpace s" by simp
  moreover have "dropWhile isWhiteSpace s = trim s @ rev (takeWhile isWhiteSpace (rev (dropWhile isWhiteSpace s)))"
    unfolding trim_def by (metis rev_append rev_rev_ident takeWhile_dropWhile_id)
  ultimately show ?thesis by metis
qed

lemma trim_ends: "trim s = [] \<or> (\<not> isWhiteSpace (hd (trim s)) \<and> \<not> isWhiteSpace (last (trim s)))"
proof (cases "trim s = []")
  case True
  then show ?thesis by simp
next
  case False
  let ?u = "dropWhile isWhiteSpace s"
  let ?w = "dropWhile isWhiteSpace (rev ?u)"
  from False have w: "?w \<noteq> []" by (simp add: trim_def)
  then have "\<not> isWhiteSpace (hd ?w)" using hd_dropWhile by blast
  then have l: "\<not> isWhiteSpace (last (trim s))" using w by (simp add: trim_def last_rev)
  from w have "rev ?u \<noteq> []" by (metis dropWhile.simps(1))
  then have u: "?u \<noteq> []" by simp
  then have hu: "\<not> isWhiteSpace (hd ?u)" using hd_dropWhile by blast
  have "?u = trim s @ rev (takeWhile isWhiteSpace (rev ?u))"
    unfolding trim_def by (metis rev_append rev_rev_ident takeWhile_dropWhile_id)
  with False have "hd ?u = hd (trim s)" by (metis hd_append2)
  with hu l show ?thesis by simp
qed

lemma normalized_cleanSetting: "normalized (cleanSetting s)"
proof -
  let ?t = "replaceAll spaces (str '' '') (replaceAll parenRe [] s)"
  have "single_spaced ?t" by (simp add: replaceAll_spaces single_spaced_collapse)
  moreover obtain a b where "?t = a @ trim ?t @ b" using trim_parts by blast
  ultimately have "single_spaced (trim ?t)"
    by (metis single_spaced_prefix single_spaced_suffix)
  with trim_ends [of ?t] show ?thesis by (simp add: normalized_def cleanSetting_def)
qed

section \<open>Settings\<close>

lemma settings_final:
  "settings (parseBookDetails doc) =
     (if settingsContainer doc \<noteq> [] then settingsOf (settingsText doc) else [])"
  by (simp add: parseBookDetails_eq parseSettings_eq initializeBookDetailsObject_def)

lemma london_paris:
  "settingsOf (str ''London (England), London (England), Paris'') = [str ''London'', str ''Paris'']"
  by code_simp

text \<open>
  C6. The settings of the finished record never hold a value twice, and every one of
  them is normalized: white space collapsed to single spaces and trimmed. When the
  document has a work-details item labelled exactly Setting, the settings are, as a set,
  the cleaned pieces of its text (parenthetical annotations removed, white space
  collapsed, trimmed). The raw text \<open>London (England), London (England), Paris\<close>
  gives the set of London and Paris.
\<close>

theorem settings_no_duplicates:
  "distinct (settings (parseBookDetails doc))
   \<and> list_all normalized (settings (parseBookDetails doc))
   \<and> (settingsContainer doc \<noteq> [] \<longrightarrow>
        set (settings (parseBookDetails doc)) = cleanSetting ` set (js_split 44 (settingsText doc)))
   \<and> set (settingsOf (str ''London (England), London (England), Paris''))
        = {str ''London'', str ''Paris''}"
proof -
  have "list_all normalized (settings (parseBookDetails doc))"
    by (auto simp: settings_final settingsOf_def list_all_iff set_new_Set normalized_cleanSetting)
  moreover have "set (settingsOf (str ''London (England), London (England), Paris''))
        = {str ''London'', str ''Paris''}"
    by (simp add: london_paris)
  ultimately show ?thesis
    by (simp add: settings_final settingsOf_def distinct_new_Set set_new_Set)
qed

theorem settings_no_duplicates_witness:
  "settingsContainer hell_house_page \<noteq> []
   \<and> map cleanSetting (js_split 44 (settingsText hell_house_page))
        = [str ''London'', str ''London'', str ''Paris'']
   \<and> distinct (settings (parseBookDetails hell_house_page))
   \<and> list_all normalized (settings (parseBookDetails hell_house_page))
   \<and> set (settings (parseBookDetails hell_house_page)) = {str ''London'', str ''Paris''}"
proof -
  have c: "settingsContainer hell_house_page \<noteq> []"
    by code_simp
  have m: "map cleanSetting (js_split 44 (settingsText hell_house_page))
             = [str ''London'', str ''London'', str ''Paris'']"
    by code_simp
  have "set (map cleanSetting (js_split 44 (settingsText hell_house_page)))
          = {str ''London'', str ''Paris''}"
    unfolding m by simp
  then have s: "cleanSetting ` set (js_split 44 (settingsText hell_house_page))
                  = {str ''London'', str ''Paris''}"
    by simp
  from settings_no_duplicates [of hell_house_page] c s m show ?thesis
    by simp
qed

text \<open>
  C10. When the document has a Setting item, the settings are the first occurrences of
  the cleaned comma-separated pieces, in the order in which the pieces appear in the raw
  text.
\<close>

theorem settings_first_seen_order:
  "settingsContainer doc \<noteq> [] \<Longrightarrow>
     settings (parseBookDetails doc)
       = first_occurrences (map cleanSetting (js_split 44 (settingsText doc)))"
  by (simp add: settings_final settingsOf_def new_Set_first_occurrences)

lemma derry_settings:
  "settingsContainer derry_page \<noteq> []"
  "map cleanSetting (js_split 44 (settingsText derry_page))
     = [str ''Derry'', str ''Paris'', str ''Derry'', str ''New York'', str ''Paris'']"
  "first_occurrences [str ''Derry'', str ''Paris'', str ''Derry'', str ''New York'', str ''Paris'']
     = [str ''Derry'', str ''Paris'', str ''New York'']"
  by code_simp+

theorem settings_first_seen_order_witness:
  "settingsContainer derry_page \<noteq> []
   \<and> map cleanSetting (js_split 44 (settingsText derry_page))
        = [str ''Derry'', str ''Paris'', str ''Derry'', str ''New York'', str ''Paris'']
   \<and> settings (parseBookDetails derry_page) = [str ''Derry'', str ''Paris'', str ''New York'']"
  using settings_first_seen_order [of derry_page]
  by (simp add: derry_settings)

section \<open>Ratings and reviews\<close>

lemma ratings_final:
  "bookDetails.numberOfRatings (parseBookDetails doc) =
     map_option (\<lambda>m. replaceAll commaRe [] (cap1 m)) (js_match (counted ''ratings'') (ratingsAndReviews doc))"
  "numberOfReviews (parseBookDetails doc) =
     map_option (\<lambda>m. replaceAll commaRe [] (cap1 m)) (js_match (counted ''reviews'') (ratingsAndReviews doc))"
  by (simp_all add: parseBookDetails_eq parseRatings_def Let_def split: option.splits)

lemma strip_55061: "replaceAll commaRe [] (str ''55,061'') = str ''55061''"
  by code_simp

text \<open>
  C7. numberOfRatings and numberOfReviews are read from the one meta text by two
  patterns, \<open>digits-with-commas ratings\<close> and \<open>digits-with-commas reviews\<close>; each
  is null exactly when its own pattern does not match, whatever the other does. The
  stored value has the commas of the match removed, so it holds no comma; \<open>55,061\<close>
  becomes \<open>55061\<close>.
\<close>

theorem ratings_and_reviews:
  "bookDetails.numberOfRatings (parseBookDetails doc) =
     map_option (\<lambda>m. replaceAll commaRe [] (cap1 m))
       (js_match (counted ''ratings'') (ratingsAndReviews doc))
   \<and> numberOfReviews (parseBookDetails doc) =
     map_option (\<lambda>m. replaceAll commaRe [] (cap1 m))
       (js_match (counted ''reviews'') (ratingsAndReviews doc))
   \<and> 44 \<notin> set (replaceAll commaRe [] s)
   \<and> replaceAll commaRe [] (str ''55,061'') = str ''55061''"
proof -
  have "44 \<notin> set (replaceAll commaRe [] s)"
    by (simp add: replaceAll_comma)
  then show ?thesis
    by (simp add: ratings_final strip_55061)
qed

lemma meta_examples:
  "ratingsAndReviews hell_house_page = str ''55,061 ratings''"
  "js_match (counted ''ratings'') (str ''55,061 ratings'') = Some [str ''55,061'']"
  "js_match (counted ''reviews'') (str ''55,061 ratings'') = None"
  "ratingsAndReviews dark_tower_page = str ''4,640 reviews''"
  "js_match (counted ''ratings'') (str ''4,640 reviews'') = None"
  "js_match (counted ''reviews'') (str ''4,640 reviews'') = Some [str ''4,640'']"
  "replaceAll commaRe [] (str ''4,640'') = str ''4640''"
  by code_simp+

theorem ratings_and_reviews_witness:
  "bookDetails.numberOfRatings (parseBookDetails hell_house_page) = Some (str ''55061'')
   \<and> numberOfReviews (parseBookDetails hell_house_page) = None
   \<and> bookDetails.numberOfRatings (parseBookDetails dark_tower_page) = None
   \<and> numberOfReviews (parseBookDetails dark_tower_page) = Some (str ''4640'')"
  using ratings_and_reviews [of hell_house_page] ratings_and_reviews [of dark_tower_page]
  by (simp add: meta_examples cap1_def strip_55061)

section \<open>Document order\<close>

lemma doc_before_append: "doc_before (p @ xs) (p @ ys) = doc_before xs ys"
  by (induction p) simp_all

lemma doc_before_irrefl: "\<not> doc_before p p"
  by (induction p) simp_all

lemma paths_below:
  "e \<in> set (subtree p anc n) \<Longrightarrow> \<exists>q. path e = p @ q"
  "e \<in> set (forest p anc i ks) \<Longrightarrow> \<exists>j q. i \<le> j \<and> path e = p @ j # q"
proof (induction p anc n and p anc i ks arbitrary: e and e rule: subtree_forest.induct)
  case (1 p anc t)
  then show ?case by simp
next
  case (2 p anc tg as kids)
  then show ?case by fastforce
next
  case (3 p anc i)
  then show ?case by simp
next
  case (4 p anc i k ks)
  from "4.prems" consider "e \<in> set (subtree (p @ [i]) anc k)" | "e \<in> set (forest p anc (Suc i) ks)"
    by auto
  then show ?case
  proof cases
    case 1
    with "4.IH"(1) obtain q where "path e = (p @ [i]) @ q" by blast
    then show ?thesis by auto
  next
    case 2
    with "4.IH"(2) obtain j q where "Suc i \<le> j" "path e = p @ j # q" by blast
    then show ?thesis by (intro exI [of _ j] exI [of _ q]) simp
  qed
qed

lemma document_order:
  "sorted_wrt doc_before (map path (subtree p anc n))"
  "sorted_wrt doc_before (map path (forest p anc i ks))"
proof (induction p anc n and p anc i ks rule: subtree_forest.induct)
  case (1 p anc t)
  show ?case by simp
next
  case (2 p anc tg as kids)
  have "doc_before p (path e)" if "e \<in> set (forest p ((p, Element tg as kids) # anc) 0 kids)" for e
  proof -
    from paths_below(2) [OF that] obtain j q where "path e = p @ j # q" by blast
    then show ?thesis using doc_before_append [of p "[]" "j # q"] by simp
  qed
  with 2 show ?case by simp
next
  case (3 p anc i)
  show ?case by simp
next
  case (4 p anc i k ks)
  have "doc_before (path a) (path b)"
    if a: "a \<in> set (subtree (p @ [i]) anc k)" and b: "b \<in> set (forest p anc (Suc i) ks)" for a b
  proof -
    from paths_below(1) [OF a] obtain q where qa: "path a = p @ i # q" by auto
    from paths_below(2) [OF b] obtain j q' where jb: "Suc i \<le> j" "path b = p @ j # q'" by blast
    show ?thesis unfolding qa jb(2) doc_before_append using jb(1) by simp
  qed
  with 4 show ?case by (simp add: sorted_wrt_append)
qed

lemma select_document_order: "sorted_wrt doc_before (map path (select sel doc))"
proof -
  have "sorted_wrt (\<lambda>a b. doc_before (path a) (path b)) (forest [] [] 0 doc)"
    using document_order(2) [of "[]" "[]" 0 doc] by (simp add: sorted_wrt_map)
  then have "sorted_wrt (\<lambda>a b. doc_before (path a) (path b)) (select sel doc)"
    unfolding select_def by (rule sorted_wrt_filter)
  then show ?thesis by (simp add: sorted_wrt_map)
qed

section \<open>Search rows\<close>

lemma foldl_row_authors:
  "foldl (\<lambda>b a. b\<lparr>book.authors := book.authors b @ [f a]\<rparr>) bk xs
     = bk\<lparr>book.authors := book.authors bk @ map f xs\<rparr>"
  by (induction xs arbitrary: bk) simp_all

lemma parseAuthors_row_eq:
  "parseAuthors_row el bk = bk\<lparr>book.authors := book.authors bk @
     map (\<lambda>a. trim (text_of (find_in [tag_attr ''span'' ''itemprop'' ''name''] [a])))
       (find_in [cls ''authorName__container''] [el])\<rparr>"
  unfolding parseAuthors_row_def by (rule foldl_row_authors)

lemma case_map_option: "(case x of None \<Rightarrow> None | Some m \<Rightarrow> Some (f m)) = map_option f x"
  by (cases x) simp_all

text \<open>
  The finished row record, field by field: only detailsUrl and goodreadsId depend on the
  href of the title link.
\<close>

lemma parseBookData_eq:
  "parseBookData el =
     \<lparr>book.title = orNull (trim (text_of
        (find_in [cls ''bookTitle'', tag_attr ''span'' ''itemprop'' ''name''] [el]))),
      authors = map (\<lambda>a. trim (text_of (find_in [tag_attr ''span'' ''itemprop'' ''name''] [a])))
                  (find_in [cls ''authorName__container''] [el]),
      detailsUrl = detailsUrl (initializeBookObject el),
      goodreadsId = goodreadsId (initializeBookObject el),
      publishedYear = map_option cap1 (js_match yearRe (text_of
        (find_in [Simple None [str ''greyText'', str ''smallText'', str ''uitext''] []] [el]))),
      averageRating = map_option cap1 (js_match avgRe (text_of (find_in [cls ''minirating''] [el]))),
      numberOfRatings = map_option (\<lambda>m. replaceAll commaRe [] (cap1 m))
        (js_match rowRatingsRe (text_of (find_in [cls ''minirating''] [el])))\<rparr>"
  by (simp add: parseBookData_def parseRatings_row_def parsePublishedDate_def
      parseAuthors_row_eq initializeBookObject_def Let_def case_map_option)

lemma undefined_url:
  "js_match showRe (str ''https://www.goodreads.comundefined'') = None"
  "str ''https://www.goodreads.com'' @ str ''undefined'' = str ''https://www.goodreads.comundefined''"
  "str ''https://www.goodreads.comundefined'' \<noteq> []"
  by code_simp+

text \<open>
  C1, at the failing input. A row whose title link has no href: goodreadsId is null and
  title, authors, publishedYear, averageRating and numberOfRatings are extracted as for
  any row, but detailsUrl is not null: the prefix is concatenated with \<open>undefined\<close>
  before the \<open>|| null\<close> guard, which therefore never fires.
\<close>

theorem missing_href:
  "attr (str ''href'') (find_in [cls ''bookTitle''] [el]) = None \<Longrightarrow>
     parseBookData el =
       \<lparr>book.title = orNull (trim (text_of
          (find_in [cls ''bookTitle'', tag_attr ''span'' ''itemprop'' ''name''] [el]))),
        authors = map (\<lambda>a. trim (text_of (find_in [tag_attr ''span'' ''itemprop'' ''name''] [a])))
                    (find_in [cls ''authorName__container''] [el]),
        detailsUrl = Some (str ''https://www.goodreads.comundefined''),
        goodreadsId = None,
        publishedYear = map_option cap1 (js_match yearRe (text_of
          (find_in [Simple None [str ''greyText'', str ''smallText'', str ''uitext''] []] [el]))),
        averageRating = map_option cap1 (js_match avgRe (text_of (find_in [cls ''minirating''] [el]))),
        numberOfRatings = map_option (\<lambda>m. replaceAll commaRe [] (cap1 m))
          (js_match rowRatingsRe (text_of (find_in [cls ''minirating''] [el])))\<rparr>"
proof -
  assume "attr (str ''href'') (find_in [cls ''bookTitle''] [el]) = None"
  then have "detailsUrl (initializeBookObject el) = Some (str ''https://www.goodreads.comundefined'')"
    "goodreadsId (initializeBookObject el) = None"
    by (simp_all add: initializeBookObject_def concat_undef_def Let_def undefined_url orNull_def)
  then show ?thesis
    by (simp add: parseBookData_eq)
qed

lemma second_row:
  "attr (str ''href'') (find_in [cls ''bookTitle''] [last (bookRows search_page)]) = None"
  "orNull (trim (text_of (find_in [cls ''bookTitle'', tag_attr ''span'' ''itemprop'' ''name'']
     [last (bookRows search_page)]))) = Some (str ''Study Guide'')"
  "map (\<lambda>a. trim (text_of (find_in [tag_attr ''span'' ''itemprop'' ''name''] [a])))
     (find_in [cls ''authorName__container''] [last (bookRows search_page)]) = [str ''BookRags'']"
  "map_option cap1 (js_match yearRe (text_of
     (find_in [Simple None [str ''greyText'', str ''smallText'', str ''uitext''] []]
        [last (bookRows search_page)]))) = Some (str ''2011'')"
  "map_option cap1 (js_match avgRe (text_of (find_in [cls ''minirating'']
     [last (bookRows search_page)]))) = Some (str ''4.40'')"
  "map_option (\<lambda>m. replaceAll commaRe [] (cap1 m))
     (js_match rowRatingsRe (text_of (find_in [cls ''minirating'']
        [last (bookRows search_page)]))) = Some (str ''5'')"
  by code_simp+

theorem missing_href_witness:
  "attr (str ''href'') (find_in [cls ''bookTitle''] [last (bookRows search_page)]) = None
   \<and> parseBookData (last (bookRows search_page)) =
       \<lparr>book.title = Some (str ''Study Guide''), authors = [str ''BookRags''],
        detailsUrl = Some (str ''https://www.goodreads.comundefined''), goodreadsId = None,
        publishedYear = Some (str ''2011''), averageRating = Some (str ''4.40''),
        numberOfRatings = Some (str ''5'')\<rparr>"
  using missing_href [of "last (bookRows search_page)"]
  by (simp add: second_row)

text \<open>
  C9. The search pipeline returns the records of the book rows, one per row and in the
  order of the rows; the rows themselves come in document order, each before the next;
  and there is no record when no row matches.
\<close>

theorem search_results_rows:
  "parseSearchResults doc = map parseBookData (bookRows doc)
   \<and> length (parseSearchResults doc) = length (bookRows doc)
   \<and> sorted_wrt doc_before (map path (bookRows doc))
   \<and> (bookRows doc = [] \<longrightarrow> parseSearchResults doc = [])"
  by (simp add: parseSearchResults_def foldl_push bookRows_def select_document_order)

lemma search_page_rows:
  "map path (bookRows search_page) = [[0, 1, 0, 0, 0], [0, 1, 0, 0, 1]]"
  "map (\<lambda>el. book.title (parseBookData el)) (bookRows search_page)
     = [Some (str ''Hell House''), Some (str ''Study Guide'')]"
  "bookRows not_found_page = []"
  by code_simp+

theorem search_results_rows_witness:
  "map path (bookRows search_page) = [[0, 1, 0, 0, 0], [0, 1, 0, 0, 1]]
   \<and> map book.title (parseSearchResults search_page)
        = [Some (str ''Hell House''), Some (str ''Study Guide'')]
   \<and> bookRows not_found_page = [] \<and> parseSearchResults not_found_page = []"
  using search_results_rows [of search_page] search_results_rows [of not_found_page]
  by (simp add: search_page_rows comp_def)

section \<open>Missing title block\<close>

lemma find_in_Nil: "find_in sel [] = []"
  by (simp add: find_in_def removeSubsets_def)

lemma text_of_Nil: "text_of [] = []"
  by (simp add: text_of_def)

lemma trim_Nil: "trim [] = []"
  by (simp add: trim_def)

text \<open>
  C2, at the failing input. A detail document without a title block: the title of the
  finished record is the empty string, not null.
\<close>

theorem missing_title_block:
  "titleSection doc = [] \<Longrightarrow> bookDetails.title (parseBookDetails doc) = Some []"
  by (simp add: parseBookDetails_eq parseTitleAndSeries_eq seriesElement_def find_in_Nil
      text_of_Nil trim_Nil)

lemma rating_only_title: "titleSection rating_only_page = []"
  by code_simp

theorem missing_title_block_witness:
  "titleSection rating_only_page = []
   \<and> bookDetails.title (parseBookDetails rating_only_page) = Some []
   \<and> bookDetails.title (parseBookDetails rating_only_page) \<noteq> None"
  using missing_title_block [of rating_only_page]
  by (simp add: rating_only_title)

section \<open>Genre labels\<close>

lemma genres_final:
  "genres (parseBookDetails doc) =
     filter (\<lambda>g. g \<noteq> str ''...show all'') (map (\<lambda>el. trim (text_of [el]))
       (select [cls ''BookPageMetadataSection__genres'', cls ''Button__labelItem''] doc))"
  by (simp add: parseBookDetails_eq parseGenres_eq initializeBookDetailsObject_def)

lemma more_not_show_all: "str ''...more'' \<noteq> str ''...show all''"
  by (simp add: str_def)

text \<open>
  C3, at the failing input. \<open>parseGenres\<close> of lines 200-207 compares with
  \<open>...show all\<close> only: a genre chip whose text is \<open>...more\<close>, the label the variant of
  lines 503-510 also drops, is appended to genres.
\<close>

theorem more_label_kept:
  "str ''...more'' \<in> set (map (\<lambda>el. trim (text_of [el]))
       (select [cls ''BookPageMetadataSection__genres'', cls ''Button__labelItem''] doc))
   \<Longrightarrow> str ''...more'' \<in> set (genres (parseBookDetails doc))"
  by (simp add: genres_final more_not_show_all)

lemma genres_page_chips:
  "map (\<lambda>el. trim (text_of [el]))
       (select [cls ''BookPageMetadataSection__genres'', cls ''Button__labelItem''] genres_page)
     = [str ''Horror'', str ''Fiction'', str ''...more'', str ''...show all'']"
  "filter (\<lambda>g. g \<noteq> str ''...show all'')
      [str ''Horror'', str ''Fiction'', str ''...more'', str ''...show all'']
     = [str ''Horror'', str ''Fiction'', str ''...more'']"
  by code_simp+

theorem more_label_kept_witness:
  "genres (parseBookDetails genres_page) = [str ''Horror'', str ''Fiction'', str ''...more'']
   \<and> str ''...more'' \<in> set (genres (parseBookDetails genres_page))"
proof -
  have g: "genres (parseBookDetails genres_page) = [str ''Horror'', str ''Fiction'', str ''...more'']"
    unfolding genres_final genres_page_chips ..
  have "str ''...more'' \<in> set (map (\<lambda>el. trim (text_of [el]))
       (select [cls ''BookPageMetadataSection__genres'', cls ''Button__labelItem''] genres_page))"
    unfolding genres_page_chips(1) by simp
  from more_label_kept [OF this] g show ?thesis by simp
qed

text \<open>
  The variant of lines 503-510 appends neither label, and neither variant appends
  \<open>...show all\<close>.
\<close>

lemma parseGenres_alt_no_sentinel:
  "str ''...more'' \<notin> set (genres (parseGenres_alt doc initializeBookDetailsObject))"
  "str ''...show all'' \<notin> set (genres (parseGenres_alt doc initializeBookDetailsObject))"
  by (simp_all add: parseGenres_alt_eq initializeBookDetailsObject_def)

lemma parseGenres_no_show_all:
  "str ''...show all'' \<notin> set (genres (parseBookDetails doc))"
  by (simp add: genres_final)

section \<open>A document in which nothing is found\<close>

lemma no_match_in_empty:
  "exec_at (counted ''ratings'') [] = None"
  "exec_at (counted ''reviews'') [] = None"
  "exec_at pagesRe [] = None"
  "exec_at publishedRe [] = None"
  by code_simp+

text \<open>
  C8, at the failing input. In a document in which none of the selectors of lookup.js
  matches, every extractor finds nothing and none of them stops the others: each field
  holds its absence value, except the title, which is the empty string. With only a
  rating node present, the rating is extracted and the title is again the empty string.
\<close>

theorem nothing_found:
  "list_all (\<lambda>q. select q doc = []) detailSelectors \<Longrightarrow>
     parseBookDetails doc = initializeBookDetailsObject\<lparr>bookDetails.title := Some []\<rparr>"
  by (simp add: detailSelectors_def parseBookDetails_eq parseTitleAndSeries_eq parseAuthors_eq
      parseRatings_def parseGenres_eq parseBasicDetails_eq parseDescription_eq
      parseCoverImage_def parseEditionDetails_eq parseSettings_eq ratingsAndReviews_def
      settingsContainer_def seriesElement_def titleSection_def find_in_Nil text_of_Nil
      trim_Nil first_def attr_def orNull_def orNull_undef_def no_match_in_empty
      initializeBookDetailsObject_def)

lemma not_found_selectors: "list_all (\<lambda>q. select q not_found_page = []) detailSelectors"
  by code_simp

lemma rating_only_fields:
  "rating (parseRatings rating_only_page initializeBookDetailsObject) = Some (str ''3.73'')"
  "bookDetails.title (parseTitleAndSeries rating_only_page initializeBookDetailsObject) = Some []"
  by code_simp+

theorem nothing_found_witness:
  "list_all (\<lambda>q. select q not_found_page = []) detailSelectors
   \<and> parseBookDetails not_found_page = initializeBookDetailsObject\<lparr>bookDetails.title := Some []\<rparr>
   \<and> bookDetails.title (parseBookDetails not_found_page) = Some []
   \<and> rating (parseBookDetails rating_only_page) = Some (str ''3.73'')
   \<and> bookDetails.title (parseBookDetails rating_only_page) = Some []"
proof -
  have r: "rating (parseBookDetails rating_only_page) = Some (str ''3.73'')"
    "bookDetails.title (parseBookDetails rating_only_page) = Some []"
    by (simp_all add: parseBookDetails_eq rating_only_fields)
  from nothing_found [OF not_found_selectors] r not_found_selectors show ?thesis
    by simp
qed

end
